theory Spec2Isabelle
  imports Main "HOL-Library.Sublist"
begin

section \<open>JavaScript values\<close>

text \<open>
  The server receives decoded JSON and handles it with JavaScript's dynamic operators, so
  the model starts with the values themselves. \<open>JUndefined\<close> is the value of a
  property that is absent. \<open>JNum\<close> carries the integers: a number with a fraction,
  or one beyond the exactly representable range of a double, is outside the model.
  An object is the list of its own properties, in order; a parsed object has one binding
  for each key, and where a list has more the first one is read. A string is the list of
  its characters (for text beyond ASCII, of the bytes of its UTF-8 form): the program
  compares strings, joins them, looks for one inside another and lower-cases them, and
  lower-casing is left to the runtime (see \<open>env\<close>).
\<close>

datatype json =
    JUndefined
  | JNull
  | JBool bool
  | JNum int
  | JStr string
  | JArr "json list"
  | JObj "(string \<times> json) list"

text \<open>The result of \<open>ToNumber\<close>: a finite (integer) number, an infinity, or NaN.\<close>

datatype jsnum = NaN | Fin int | PosInf | NegInf

text \<open>
  A thrown exception. The program throws \<open>Error\<close> itself; a \<open>TypeError\<close> is
  thrown by the engine (reading a property of \<open>undefined\<close>, calling what is not a
  function) and its text is the engine's (here V8's wording).
\<close>

datatype js_error = TypeError string | Error string

fun error_message :: "js_error \<Rightarrow> string" where
  "error_message (TypeError m) = m"
| "error_message (Error m) = m"

definition nullish :: "json \<Rightarrow> bool" where
  "nullish v = (v = JUndefined \<or> v = JNull)"

text \<open>Truthiness, as \<open>if (v)\<close>, \<open>!v\<close>, \<open>a || b\<close> and \<open>a && b\<close> test it.\<close>

fun truthy :: "json \<Rightarrow> bool" where
  "truthy JUndefined = False"
| "truthy JNull = False"
| "truthy (JBool b) = b"
| "truthy (JNum n) = (n \<noteq> 0)"
| "truthy (JStr s) = (s \<noteq> [])"
| "truthy (JArr xs) = True"
| "truthy (JObj kvs) = True"

definition js_or :: "json \<Rightarrow> json \<Rightarrow> json" where
  "js_or a b = (if truthy a then a else b)"

definition js_and :: "json \<Rightarrow> json \<Rightarrow> json" where
  "js_and a b = (if truthy a then b else a)"

text \<open>
  \<open>v.k\<close> for a value \<open>v\<close> that is neither \<open>undefined\<close> nor \<open>null\<close> (for
  those the read throws, which every caller below checks first). Strings and arrays have
  \<open>length\<close>; no other property name the program reads exists on a primitive, an array
  or the prototypes.
\<close>

fun get_prop :: "json \<Rightarrow> string \<Rightarrow> json" where
  "get_prop (JObj kvs) k = (case map_of kvs k of Some v \<Rightarrow> v | None \<Rightarrow> JUndefined)"
| "get_prop (JArr xs) k = (if k = ''length'' then JNum (int (length xs)) else JUndefined)"
| "get_prop (JStr s) k = (if k = ''length'' then JNum (int (length s)) else JUndefined)"
| "get_prop v k = JUndefined"

definition cannot_read :: "json \<Rightarrow> string \<Rightarrow> js_error" where
  "cannot_read v k =
     TypeError (''Cannot read properties of '' @ (if v = JNull then ''null'' else ''undefined'')
                @ '' (reading '' @ [CHR 0x27] @ k @ [CHR 0x27] @ '')'')"

text \<open>
  Decimal text of an integer, as a template literal prints it (below \<open>10^21\<close>, where
  JavaScript changes to the exponent notation).
\<close>

function nat_to_string :: "nat \<Rightarrow> string" where
  "nat_to_string n =
     (if n < 10 then [''0123456789'' ! n]
      else nat_to_string (n div 10) @ [''0123456789'' ! (n mod 10)])"
  by pat_completeness auto
termination
  by (relation "measure (\<lambda>n. n)") auto

definition int_to_string :: "int \<Rightarrow> string" where
  "int_to_string i = (if i < 0 then ''-'' @ nat_to_string (nat (- i)) else nat_to_string (nat i))"

definition join :: "string \<Rightarrow> string list \<Rightarrow> string" where
  "join sep xs = (case xs of [] \<Rightarrow> [] | y # ys \<Rightarrow> y @ concat (map (\<lambda>z. sep @ z) ys))"

text \<open>
  \<open>ToString\<close>, as a template literal \<open>`${v}`\<close> applies it. An object that has a
  property \<open>toString\<close> or \<open>valueOf\<close> of its own is outside the model.
\<close>

fun to_string :: "json \<Rightarrow> string" where
  "to_string JUndefined = ''undefined''"
| "to_string JNull = ''null''"
| "to_string (JBool b) = (if b then ''true'' else ''false'')"
| "to_string (JNum n) = int_to_string n"
| "to_string (JStr s) = s"
| "to_string (JArr xs) =
     join '','' (map (\<lambda>x. if x = JUndefined \<or> x = JNull then [] else to_string x) xs)"
| "to_string (JObj kvs) = ''[object Object]''"

text \<open>
  \<open>ToNumber\<close>. The numeric reading of a string (\<open>StringToNumber\<close>) is the runtime's and
  is taken as a parameter; an array or object is first turned into its string.
\<close>

fun toNumber :: "(string \<Rightarrow> jsnum) \<Rightarrow> json \<Rightarrow> jsnum" where
  "toNumber sn JUndefined = NaN"
| "toNumber sn JNull = Fin 0"
| "toNumber sn (JBool b) = Fin (if b then 1 else 0)"
| "toNumber sn (JNum n) = Fin n"
| "toNumber sn (JStr s) = sn s"
| "toNumber sn v = sn (to_string v)"

text \<open>
  \<open>xs.slice(0, end)\<close>: \<open>end\<close> goes through \<open>ToIntegerOrInfinity\<close> (NaN is 0), a
  negative end counts from the back, and the end is clamped to the length.
\<close>

fun slice0 :: "'a list \<Rightarrow> jsnum \<Rightarrow> 'a list" where
  "slice0 xs NaN = []"
| "slice0 xs (Fin n) = (if n < 0 then take (nat (int (length xs) + n)) xs else take (nat n) xs)"
| "slice0 xs PosInf = xs"
| "slice0 xs NegInf = []"

text \<open>\<open>Array.prototype.findIndex\<close>; \<open>None\<close> stands for its \<open>-1\<close>.\<close>

fun findIndex :: "('a \<Rightarrow> bool) \<Rightarrow> 'a list \<Rightarrow> nat option" where
  "findIndex p [] = None"
| "findIndex p (x # xs) =
     (if p x then Some 0 else (case findIndex p xs of None \<Rightarrow> None | Some i \<Rightarrow> Some (Suc i)))"

text \<open>\<open>s.includes(q)\<close>: \<open>q\<close> occurs in \<open>s\<close> as a contiguous run.\<close>

fun str_includes :: "string \<Rightarrow> string \<Rightarrow> bool" where
  "str_includes [] q = (q = [])"
| "str_includes (c # s) q = (prefix q (c # s) \<or> str_includes s q)"

section \<open>The environment of one request\<close>

text \<open>
  What a handler reads from outside the program while it serves one request:
  \<open>uuidv4\<close> is the identifier the \<open>uuid\<close> library returns when \<open>uuidv4()\<close> is
  called, \<open>now\<close> the clock reading of \<open>new Date()\<close> (milliseconds since the epoch),
  \<open>newDate\<close> the time value of \<open>new Date(v)\<close> (\<open>None\<close> for an invalid date),
  \<open>stringToNumber\<close> the runtime's numeric reading of a string and \<open>toLowerCase\<close>
  the runtime's \<open>String.prototype.toLowerCase\<close>, with the Unicode case mapping it
  applies.
\<close>

record env =
  uuidv4 :: string
  now :: int
  newDate :: "json \<Rightarrow> int option"
  stringToNumber :: "string \<Rightarrow> jsnum"
  toLowerCase :: "string \<Rightarrow> string"

text \<open>\<open>a >= b\<close> and \<open>a <= b\<close> on two dates: false when either is invalid.\<close>

definition date_ge :: "int option \<Rightarrow> int option \<Rightarrow> bool" where
  "date_ge a b = (case (a, b) of (Some x, Some y) \<Rightarrow> x \<ge> y | _ \<Rightarrow> False)"

definition date_le :: "int option \<Rightarrow> int option \<Rightarrow> bool" where
  "date_le a b = (case (a, b) of (Some x, Some y) \<Rightarrow> x \<le> y | _ \<Rightarrow> False)"

section \<open>The in-memory server\<close>

subsection \<open>Events and results\<close>

text \<open>
  An element of the \<open>events\<close> array. \<open>event_id\<close> is the property \<open>id\<close>.
  \<open>created_at\<close> and \<open>updated_at\<close> hold the instant whose \<open>toISOString()\<close> text the
  property is; \<open>updated_at\<close> is absent until the first update. The other properties hold
  whatever value the caller sent.
\<close>

record event =
  event_id :: string
  title :: json
  description :: json
  start_time :: json
  end_time :: json
  location :: json
  attendees :: json
  created_at :: int
  updated_at :: "int option"

text \<open>
  What a tool returns: the line of \<open>content[0].text\<close> and the structured property
  (\<open>event\<close>, \<open>events\<close> or \<open>deleted_event_id\<close>).
\<close>

datatype payload = EventPayload event | EventsPayload "event list" | DeletedPayload json

datatype tool_result = ToolResult (content_text: string) (payload: payload)

type_synonym 'r outcome = "(js_error + 'r) \<times> event list"

subsection \<open>Tool implementations\<close>

definition createEvent :: "env \<Rightarrow> json \<Rightarrow> event list \<Rightarrow> tool_result outcome" where
  "createEvent e args events =
     (if nullish args then (Inl (cannot_read args ''title''), events)
      else
        let event = \<lparr> event_id = uuidv4 e,
                      title = get_prop args ''title'',
                      description = js_or (get_prop args ''description'') (JStr ''''),
                      start_time = get_prop args ''start_time'',
                      end_time = get_prop args ''end_time'',
                      location = js_or (get_prop args ''location'') (JStr ''''),
                      attendees = js_or (get_prop args ''attendees'') (JArr []),
                      created_at = now e,
                      updated_at = None \<rparr>
        in (Inr (ToolResult (''Event created successfully with ID: '' @ event_id event)
                            (EventPayload event)),
            events @ [event]))"

definition listEvents :: "env \<Rightarrow> json \<Rightarrow> event list \<Rightarrow> tool_result outcome" where
  "listEvents e args events =
     (if nullish args then (Inl (cannot_read args ''start_date''), events)
      else
        let filteredEvents = events;
            filteredEvents =
              (if truthy (get_prop args ''start_date'')
               then let startDate = newDate e (get_prop args ''start_date'')
                    in filter (\<lambda>event. date_ge (newDate e (start_time event)) startDate)
                              filteredEvents
               else filteredEvents);
            filteredEvents =
              (if truthy (get_prop args ''end_date'')
               then let endDate = newDate e (get_prop args ''end_date'')
                    in filter (\<lambda>event. date_le (newDate e (start_time event)) endDate)
                              filteredEvents
               else filteredEvents);
            limit = js_or (get_prop args ''limit'') (JNum 10);
            limitedEvents = slice0 filteredEvents (toNumber (stringToNumber e) limit)
        in (Inr (ToolResult (''Found '' @ nat_to_string (length limitedEvents) @ '' events'')
                            (EventsPayload limitedEvents)),
            events))"

definition getEvent :: "env \<Rightarrow> json \<Rightarrow> event list \<Rightarrow> tool_result outcome" where
  "getEvent e args events =
     (if nullish args then (Inl (cannot_read args ''event_id''), events)
      else
        (case find (\<lambda>ev. JStr (event_id ev) = get_prop args ''event_id'') events of
           None \<Rightarrow>
             (Inl (Error (''Event not found: '' @ to_string (get_prop args ''event_id''))), events)
         | Some event \<Rightarrow>
             (Inr (ToolResult (''Event details for: '' @ to_string (title event))
                              (EventPayload event)),
              events)))"

definition updateEvent :: "env \<Rightarrow> json \<Rightarrow> event list \<Rightarrow> tool_result outcome" where
  "updateEvent e args events =
     (if nullish args then (Inl (cannot_read args ''event_id''), events)
      else
        (case findIndex (\<lambda>ev. JStr (event_id ev) = get_prop args ''event_id'') events of
           None \<Rightarrow>
             (Inl (Error (''Event not found: '' @ to_string (get_prop args ''event_id''))), events)
         | Some eventIndex \<Rightarrow>
             let event = events ! eventIndex;
                 event = (if get_prop args ''title'' \<noteq> JUndefined
                          then event\<lparr>title := get_prop args ''title''\<rparr> else event);
                 event = (if get_prop args ''description'' \<noteq> JUndefined
                          then event\<lparr>description := get_prop args ''description''\<rparr> else event);
                 event = (if get_prop args ''start_time'' \<noteq> JUndefined
                          then event\<lparr>start_time := get_prop args ''start_time''\<rparr> else event);
                 event = (if get_prop args ''end_time'' \<noteq> JUndefined
                          then event\<lparr>end_time := get_prop args ''end_time''\<rparr> else event);
                 event = (if get_prop args ''location'' \<noteq> JUndefined
                          then event\<lparr>location := get_prop args ''location''\<rparr> else event);
                 event = (if get_prop args ''attendees'' \<noteq> JUndefined
                          then event\<lparr>attendees := get_prop args ''attendees''\<rparr> else event);
                 event = event\<lparr>updated_at := Some (now e)\<rparr>
             in (Inr (ToolResult (''Event updated successfully: '' @ to_string (title event))
                                 (EventPayload event)),
                 events[eventIndex := event])))"

definition deleteEvent :: "env \<Rightarrow> json \<Rightarrow> event list \<Rightarrow> tool_result outcome" where
  "deleteEvent e args events =
     (if nullish args then (Inl (cannot_read args ''event_id''), events)
      else
        (case findIndex (\<lambda>ev. JStr (event_id ev) = get_prop args ''event_id'') events of
           None \<Rightarrow>
             (Inl (Error (''Event not found: '' @ to_string (get_prop args ''event_id''))), events)
         | Some eventIndex \<Rightarrow>
             let deletedEvent = events ! eventIndex
             in (Inr (ToolResult (''Event deleted successfully: '' @ to_string (title deletedEvent))
                                 (DeletedPayload (get_prop args ''event_id''))),
                 take eventIndex events @ drop (Suc eventIndex) events)))"

text \<open>
  The callback of \<open>events.filter\<close> in \<open>searchEvents\<close>: it calls \<open>toLowerCase\<close> on
  the title and, when the title does not match (\<open>||\<close> is short-circuit), on the
  description; on a value that is not a string that call throws.
\<close>

definition not_a_function :: "string \<Rightarrow> json \<Rightarrow> js_error" where
  "not_a_function path v =
     (if nullish v
      then cannot_read v ''toLowerCase''
      else TypeError (path @ ''.toLowerCase is not a function''))"

definition matches :: "env \<Rightarrow> string \<Rightarrow> event \<Rightarrow> js_error + bool" where
  "matches e query event =
     (case title event of
        JStr t \<Rightarrow>
          if str_includes (toLowerCase e t) query then Inr True
          else (case description event of
                  JStr d \<Rightarrow> Inr (str_includes (toLowerCase e d) query)
                | v \<Rightarrow> Inl (not_a_function ''event.description'' v))
      | v \<Rightarrow> Inl (not_a_function ''event.title'' v))"

text \<open>\<open>Array.prototype.filter\<close> with a callback that may throw: the first throw ends it.\<close>

fun filter_throwing :: "('a \<Rightarrow> js_error + bool) \<Rightarrow> 'a list \<Rightarrow> js_error + 'a list" where
  "filter_throwing p [] = Inr []"
| "filter_throwing p (x # xs) =
     (case p x of
        Inl err \<Rightarrow> Inl err
      | Inr keep \<Rightarrow>
          (case filter_throwing p xs of
             Inl err \<Rightarrow> Inl err
           | Inr ys \<Rightarrow> Inr (if keep then x # ys else ys)))"

definition searchEvents :: "env \<Rightarrow> json \<Rightarrow> event list \<Rightarrow> tool_result outcome" where
  "searchEvents e args events =
     (if nullish args then (Inl (cannot_read args ''query''), events)
      else
        (case get_prop args ''query'' of
           JStr q \<Rightarrow>
             let query = toLowerCase e q;
                 limit = js_or (get_prop args ''limit'') (JNum 10)
             in (case filter_throwing (matches e query) events of
                   Inl err \<Rightarrow> (Inl err, events)
                 | Inr matched \<Rightarrow>
                     let matchedEvents = slice0 matched (toNumber (stringToNumber e) limit)
                     in (Inr (ToolResult (''Found '' @ nat_to_string (length matchedEvents)
                                            @ '' events matching '' @ [CHR 0x22] @ q @ [CHR 0x22])
                                         (EventsPayload matchedEvents)),
                         events))
         | v \<Rightarrow> (Inl (not_a_function ''args.query'' v), events)))"

subsection \<open>Tool dispatch\<close>

definition handleToolCall :: "env \<Rightarrow> json \<Rightarrow> event list \<Rightarrow> tool_result outcome" where
  "handleToolCall e params events =
     (if nullish params
      then (Inl (TypeError (''Cannot destructure property 'name' of 'params' as it is ''
                            @ to_string params @ ''.'')), events)
      else
        let name = get_prop params ''name'';
            args = get_prop params ''arguments''
        in if name = JStr ''create_event'' then createEvent e args events
           else if name = JStr ''list_events'' then listEvents e args events
           else if name = JStr ''get_event'' then getEvent e args events
           else if name = JStr ''update_event'' then updateEvent e args events
           else if name = JStr ''delete_event'' then deleteEvent e args events
           else if name = JStr ''search_events'' then searchEvents e args events
           else (Inl (Error (''Unknown tool: '' @ to_string name)), events))"

subsection \<open>The JSON-RPC router\<close>

text \<open>
  The \<open>result\<close> of a success response: the fixed descriptor of \<open>initialize\<close>, the empty
  object, the constant catalogue \<open>TOOLS\<close>, or what a tool returned.
\<close>

datatype 'r mcp_result = InitializeResult | EmptyResult | ToolsListResult | CallResult 'r

record rpc_error =
  code :: int
  message :: string
  data :: json

record 'r response =
  jsonrpc :: string
  rpc_id :: json
  result :: "'r mcp_result option"
  error :: "rpc_error option"

definition createResponse ::
  "json \<Rightarrow> 'r mcp_result option \<Rightarrow> rpc_error option \<Rightarrow> 'r response" where
  "createResponse i res err =
     (let response = \<lparr> jsonrpc = ''2.0'', rpc_id = i, result = None, error = None \<rparr>
      in if err \<noteq> None then response\<lparr>error := err\<rparr> else response\<lparr>result := res\<rparr>)"

text \<open>\<open>data = null\<close> is a default parameter: it replaces \<open>undefined\<close> only.\<close>

definition createError :: "json \<Rightarrow> int \<Rightarrow> string \<Rightarrow> json \<Rightarrow> 'r response" where
  "createError i c m d =
     createResponse i None
       (Some \<lparr> code = c, message = m, data = (if d = JUndefined then JNull else d) \<rparr>)"

text \<open>The body of the \<open>try\<close> block of \<open>app.post('/mcp')\<close>.\<close>

definition mcp_try :: "env \<Rightarrow> json \<Rightarrow> event list \<Rightarrow> tool_result response outcome" where
  "mcp_try e body events =
     (if nullish body
      then (Inl (TypeError (''Cannot destructure property 'jsonrpc' of 'req.body' as it is ''
                            @ to_string body @ ''.'')), events)
      else
        let jsonrpc = get_prop body ''jsonrpc'';
            method = get_prop body ''method'';
            params = get_prop body ''params'';
            i = get_prop body ''id''
        in if jsonrpc \<noteq> JStr ''2.0''
           then (Inr (createError i (- 32600) ''Invalid Request'' JUndefined), events)
           else if method = JStr ''initialize''
           then (Inr (createResponse i (Some InitializeResult) None), events)
           else if method = JStr ''notifications/initialized''
           then (Inr (createResponse i (Some EmptyResult) None), events)
           else if method = JStr ''tools/list''
           then (Inr (createResponse i (Some ToolsListResult) None), events)
           else if method = JStr ''tools/call''
           then (case handleToolCall e params events of
                   (Inl err, events') \<Rightarrow> (Inl err, events')
                 | (Inr r, events') \<Rightarrow> (Inr (createResponse i (Some (CallResult r)) None), events'))
           else (Inr (createError i (- 32601) ''Method not found'' JUndefined), events))"

text \<open>
  The handler with its \<open>catch\<close>: \<open>req.body?.id || null\<close> is the id of the error
  response.
\<close>

definition mcp :: "env \<Rightarrow> json \<Rightarrow> event list \<Rightarrow> tool_result response \<times> event list" where
  "mcp e body events =
     (case mcp_try e body events of
        (Inr resp, events') \<Rightarrow> (resp, events')
      | (Inl err, events') \<Rightarrow>
          (createError (js_or (if nullish body then JUndefined else get_prop body ''id'') JNull)
                       (- 32603) ''Internal error'' (JStr (error_message err)),
           events'))"

section \<open>The server backed by the remote calendar\<close>

text \<open>
  The second server keeps no events itself: every tool sends requests to the calendar
  provider. The provider is a parameter: a state \<open>'b\<close> of its own and a function that
  answers one request, with the \<open>data\<close> of the response or with the error the client
  library throws. A handler returns the provider's state after the requests it made, so
  that a handler that made none returns the state it was given, whatever the provider.
\<close>

datatype api_call =
    EventsInsert json
  | EventsList json
  | EventsGet json
  | EventsUpdate json
  | EventsDelete json
  | CalendarListList json

text \<open>
  \<open>BASE_URL\<close> is fixed at startup (a string, or \<open>undefined\<close> when the environment
  variable is not set); \<open>userTokens\<close> is the token object (\<open>{}\<close> until the
  authorization callback stores the provider's tokens), never \<open>undefined\<close> or
  \<open>null\<close>.
\<close>

record 'b remote =
  BASE_URL :: json
  userTokens :: json
  calendar :: "'b \<Rightarrow> api_call \<Rightarrow> (js_error + json) \<times> 'b"
  strToNumber :: "string \<Rightarrow> jsnum"

datatype remote_payload = REvent json | REvents json | RCalendars json | RDeleted json

datatype remote_result = RemoteResult (remote_text: string) (remote_payload: remote_payload)

definition isAuthenticated :: "json \<Rightarrow> json" where
  "isAuthenticated tokens = js_and (get_prop tokens ''access_token'') (get_prop tokens ''refresh_token'')"

definition getCalendarClient :: "json \<Rightarrow> js_error + unit" where
  "getCalendarClient tokens =
     (if \<not> truthy (isAuthenticated tokens)
      then Inl (Error ''User not authenticated. Please authenticate first.'')
      else Inr ())"

text \<open>\<open>x > 0\<close> after \<open>ToNumber\<close>.\<close>

fun gt_zero :: "jsnum \<Rightarrow> bool" where
  "gt_zero (Fin n) = (n > 0)"
| "gt_zero PosInf = True"
| "gt_zero v = False"

text \<open>
  Assignment \<open>o.k = v\<close>: on an object the property is replaced, or added last. On any other
  value that is not \<open>undefined\<close> or \<open>null\<close> the assignment leaves nothing that the JSON
  of the value shows.
\<close>

fun set_prop :: "json \<Rightarrow> string \<Rightarrow> json \<Rightarrow> json" where
  "set_prop (JObj kvs) k v =
     (if k \<in> set (map fst kvs)
      then JObj (map (\<lambda>(k', v'). if k' = k then (k', v) else (k', v')) kvs)
      else JObj (kvs @ [(k, v)]))"
| "set_prop w k v = w"

text \<open>\<open>args.attendees.map(email => ({ email }))\<close>.\<close>

definition map_attendees :: "json \<Rightarrow> js_error + json" where
  "map_attendees a =
     (case a of
        JArr xs \<Rightarrow> Inr (JArr (map (\<lambda>email. JObj [(''email'', email)]) xs))
      | v \<Rightarrow> if nullish v then Inl (cannot_read v ''map'')
             else Inl (TypeError ''args.attendees.map is not a function''))"

definition createEvent_remote ::
  "'b remote \<Rightarrow> json \<Rightarrow> 'b \<Rightarrow> (js_error + remote_result) \<times> 'b" where
  "createEvent_remote r args b =
     (case getCalendarClient (userTokens r) of
        Inl err \<Rightarrow> (Inl err, b)
      | Inr u \<Rightarrow>
          if nullish args then (Inl (cannot_read args ''calendar_id''), b)
          else
            let calendarId = js_or (get_prop args ''calendar_id'') (JStr ''primary'');
                event = JObj [(''summary'', get_prop args ''title''),
                              (''description'', js_or (get_prop args ''description'') (JStr '''')),
                              (''location'', js_or (get_prop args ''location'') (JStr '''')),
                              (''start'', JObj [(''dateTime'', get_prop args ''start_time''),
                                                (''timeZone'', JStr ''UTC'')]),
                              (''end'', JObj [(''dateTime'', get_prop args ''end_time''),
                                              (''timeZone'', JStr ''UTC'')])];
                attendees = get_prop args ''attendees'';
                mapped =
                  (if truthy attendees
                      \<and> gt_zero (toNumber (strToNumber r) (get_prop attendees ''length''))
                   then (case map_attendees attendees of
                           Inl err \<Rightarrow> Inl err
                         | Inr xs \<Rightarrow> Inr (set_prop event ''attendees'' xs))
                   else Inr event)
            in (case mapped of
                  Inl err \<Rightarrow> (Inl err, b)
                | Inr event \<Rightarrow>
                    (case calendar r b
                            (EventsInsert (JObj [(''calendarId'', calendarId),
                                                 (''resource'', event),
                                                 (''sendNotifications'', JBool True)])) of
                       (Inl err, b') \<Rightarrow>
                         (Inl (Error (''Failed to create event: '' @ error_message err)), b')
                     | (Inr d, b') \<Rightarrow>
                         if nullish d
                         then (Inl (Error (''Failed to create event: ''
                                           @ error_message (cannot_read d ''summary''))), b')
                         else (Inr (RemoteResult
                                      (''Event created successfully: ''
                                       @ to_string (get_prop d ''summary''))
                                      (REvent d)), b'))))"

text \<open>
  The part of \<open>listEvents\<close>, \<open>listCalendars\<close> and \<open>searchEvents\<close> after the provider
  answered: \<open>response.data.items || []\<close> and the line that counts them.
\<close>

definition items_result ::
  "string \<Rightarrow> string \<Rightarrow> string \<Rightarrow> (json \<Rightarrow> remote_payload) \<Rightarrow> json \<Rightarrow> js_error + remote_result" where
  "items_result failed noun rest wrap d =
     (if nullish d then Inl (Error (failed @ error_message (cannot_read d ''items'')))
      else
        let events = js_or (get_prop d ''items'') (JArr [])
        in Inr (RemoteResult (''Found '' @ to_string (get_prop events ''length'') @ noun @ rest)
                             (wrap events)))"

definition listEvents_remote ::
  "'b remote \<Rightarrow> json \<Rightarrow> 'b \<Rightarrow> (js_error + remote_result) \<times> 'b" where
  "listEvents_remote r args b =
     (case getCalendarClient (userTokens r) of
        Inl err \<Rightarrow> (Inl err, b)
      | Inr u \<Rightarrow>
          if nullish args then (Inl (cannot_read args ''calendar_id''), b)
          else
            let calendarId = js_or (get_prop args ''calendar_id'') (JStr ''primary'');
                params = JObj [(''calendarId'', calendarId),
                               (''maxResults'', js_or (get_prop args ''max_results'') (JNum 10)),
                               (''singleEvents'', JBool (get_prop args ''single_events'' \<noteq> JBool False)),
                               (''orderBy'', JStr ''startTime'')];
                params = (if truthy (get_prop args ''time_min'')
                          then set_prop params ''timeMin'' (get_prop args ''time_min'') else params);
                params = (if truthy (get_prop args ''time_max'')
                          then set_prop params ''timeMax'' (get_prop args ''time_max'') else params)
            in (case calendar r b (EventsList params) of
                  (Inl err, b') \<Rightarrow>
                    (Inl (Error (''Failed to list events: '' @ error_message err)), b')
                | (Inr d, b') \<Rightarrow>
                    (items_result ''Failed to list events: '' '' events'' [] REvents d, b')))"

definition getEvent_remote ::
  "'b remote \<Rightarrow> json \<Rightarrow> 'b \<Rightarrow> (js_error + remote_result) \<times> 'b" where
  "getEvent_remote r args b =
     (case getCalendarClient (userTokens r) of
        Inl err \<Rightarrow> (Inl err, b)
      | Inr u \<Rightarrow>
          if nullish args then (Inl (cannot_read args ''calendar_id''), b)
          else
            let calendarId = js_or (get_prop args ''calendar_id'') (JStr ''primary'')
            in (case calendar r b
                        (EventsGet (JObj [(''calendarId'', calendarId),
                                          (''eventId'', get_prop args ''event_id'')])) of
                  (Inl err, b') \<Rightarrow>
                    (Inl (Error (''Failed to get event: '' @ error_message err)), b')
                | (Inr d, b') \<Rightarrow>
                    if nullish d
                    then (Inl (Error (''Failed to get event: ''
                                      @ error_message (cannot_read d ''summary''))), b')
                    else (Inr (RemoteResult
                                 (''Event details: '' @ to_string (get_prop d ''summary''))
                                 (REvent d)), b')))"

text \<open>
  The merge of \<open>updateEvent\<close>: each supplied field is assigned to the fetched event.
  An assignment to a fetched \<open>undefined\<close> or \<open>null\<close> throws.
\<close>

definition assign ::
  "json \<Rightarrow> string \<Rightarrow> json \<Rightarrow> js_error + json \<Rightarrow> js_error + json" where
  "assign supplied k v ev =
     (case ev of
        Inl err \<Rightarrow> Inl err
      | Inr event \<Rightarrow>
          if supplied = JUndefined then Inr event
          else if nullish event
          then Inl (TypeError (''Cannot set properties of '' @ to_string event
                               @ '' (setting '' @ [CHR 0x27] @ k @ [CHR 0x27] @ '')''))
          else Inr (set_prop event k v))"

definition merge_update :: "json \<Rightarrow> json \<Rightarrow> js_error + json" where
  "merge_update args event =
     (let ev = assign (get_prop args ''title'') ''summary'' (get_prop args ''title'') (Inr event);
          ev = assign (get_prop args ''description'') ''description''
                 (get_prop args ''description'') ev;
          ev = assign (get_prop args ''location'') ''location'' (get_prop args ''location'') ev;
          ev = assign (get_prop args ''start_time'') ''start''
                 (JObj [(''dateTime'', get_prop args ''start_time''), (''timeZone'', JStr ''UTC'')]) ev;
          ev = assign (get_prop args ''end_time'') ''end''
                 (JObj [(''dateTime'', get_prop args ''end_time''), (''timeZone'', JStr ''UTC'')]) ev
      in (case ev of
            Inl err \<Rightarrow> Inl err
          | Inr event \<Rightarrow>
              if get_prop args ''attendees'' = JUndefined then Inr event
              else (case map_attendees (get_prop args ''attendees'') of
                      Inl err \<Rightarrow> Inl err
                    | Inr xs \<Rightarrow> assign (JBool True) ''attendees'' xs (Inr event))))"

definition updateEvent_remote ::
  "'b remote \<Rightarrow> json \<Rightarrow> 'b \<Rightarrow> (js_error + remote_result) \<times> 'b" where
  "updateEvent_remote r args b =
     (case getCalendarClient (userTokens r) of
        Inl err \<Rightarrow> (Inl err, b)
      | Inr u \<Rightarrow>
          if nullish args then (Inl (cannot_read args ''calendar_id''), b)
          else
            let calendarId = js_or (get_prop args ''calendar_id'') (JStr ''primary'')
            in (case calendar r b
                        (EventsGet (JObj [(''calendarId'', calendarId),
                                          (''eventId'', get_prop args ''event_id'')])) of
                  (Inl err, b') \<Rightarrow>
                    (Inl (Error (''Failed to update event: '' @ error_message err)), b')
                | (Inr current, b') \<Rightarrow>
                    (case merge_update args current of
                       Inl err \<Rightarrow>
                         (Inl (Error (''Failed to update event: '' @ error_message err)), b')
                     | Inr event \<Rightarrow>
                         (case calendar r b'
                                 (EventsUpdate (JObj [(''calendarId'', calendarId),
                                                      (''eventId'', get_prop args ''event_id''),
                                                      (''resource'', event),
                                                      (''sendNotifications'', JBool True)])) of
                            (Inl err, b'') \<Rightarrow>
                              (Inl (Error (''Failed to update event: '' @ error_message err)), b'')
                          | (Inr d, b'') \<Rightarrow>
                              if nullish d
                              then (Inl (Error (''Failed to update event: ''
                                                @ error_message (cannot_read d ''summary''))), b'')
                              else (Inr (RemoteResult
                                           (''Event updated successfully: ''
                                            @ to_string (get_prop d ''summary''))
                                           (REvent d)), b'')))))"

definition deleteEvent_remote ::
  "'b remote \<Rightarrow> json \<Rightarrow> 'b \<Rightarrow> (js_error + remote_result) \<times> 'b" where
  "deleteEvent_remote r args b =
     (case getCalendarClient (userTokens r) of
        Inl err \<Rightarrow> (Inl err, b)
      | Inr u \<Rightarrow>
          if nullish args then (Inl (cannot_read args ''calendar_id''), b)
          else
            let calendarId = js_or (get_prop args ''calendar_id'') (JStr ''primary'')
            in (case calendar r b
                        (EventsGet (JObj [(''calendarId'', calendarId),
                                          (''eventId'', get_prop args ''event_id'')])) of
                  (Inl err, b') \<Rightarrow>
                    (Inl (Error (''Failed to delete event: '' @ error_message err)), b')
                | (Inr d, b') \<Rightarrow>
                    (case calendar r b'
                            (EventsDelete (JObj [(''calendarId'', calendarId),
                                                 (''eventId'', get_prop args ''event_id''),
                                                 (''sendNotifications'', JBool True)])) of
                       (Inl err, b'') \<Rightarrow>
                         (Inl (Error (''Failed to delete event: '' @ error_message err)), b'')
                     | (Inr gone, b'') \<Rightarrow>
                         if nullish d
                         then (Inl (Error (''Failed to delete event: ''
                                           @ error_message (cannot_read d ''summary''))), b'')
                         else (Inr (RemoteResult
                                      (''Event deleted successfully: ''
                                       @ to_string (get_prop d ''summary''))
                                      (RDeleted (get_prop args ''event_id''))), b''))))"

definition listCalendars_remote ::
  "'b remote \<Rightarrow> json \<Rightarrow> 'b \<Rightarrow> (js_error + remote_result) \<times> 'b" where
  "listCalendars_remote r args b =
     (case getCalendarClient (userTokens r) of
        Inl err \<Rightarrow> (Inl err, b)
      | Inr u \<Rightarrow>
          if nullish args
          then (Inl (Error (''Failed to list calendars: ''
                            @ error_message (cannot_read args ''max_results''))), b)
          else
            (case calendar r b
                    (CalendarListList
                       (JObj [(''maxResults'', js_or (get_prop args ''max_results'') (JNum 10))])) of
               (Inl err, b') \<Rightarrow>
                 (Inl (Error (''Failed to list calendars: '' @ error_message err)), b')
             | (Inr d, b') \<Rightarrow>
                 (items_result ''Failed to list calendars: '' '' calendars'' [] RCalendars d, b')))"

definition searchEvents_remote ::
  "'b remote \<Rightarrow> json \<Rightarrow> 'b \<Rightarrow> (js_error + remote_result) \<times> 'b" where
  "searchEvents_remote r args b =
     (case getCalendarClient (userTokens r) of
        Inl err \<Rightarrow> (Inl err, b)
      | Inr u \<Rightarrow>
          if nullish args then (Inl (cannot_read args ''calendar_id''), b)
          else
            let calendarId = js_or (get_prop args ''calendar_id'') (JStr ''primary'')
            in (case calendar r b
                        (EventsList (JObj [(''calendarId'', calendarId),
                                           (''q'', get_prop args ''query''),
                                           (''maxResults'',
                                            js_or (get_prop args ''max_results'') (JNum 10)),
                                           (''singleEvents'', JBool True),
                                           (''orderBy'', JStr ''startTime'')])) of
                  (Inl err, b') \<Rightarrow>
                    (Inl (Error (''Failed to search events: '' @ error_message err)), b')
                | (Inr d, b') \<Rightarrow>
                    (items_result ''Failed to search events: '' '' events matching ''
                       ([CHR 0x22] @ to_string (get_prop args ''query'') @ [CHR 0x22]) REvents d,
                     b')))"

definition handleToolCall_remote ::
  "'b remote \<Rightarrow> json \<Rightarrow> 'b \<Rightarrow> (js_error + remote_result) \<times> 'b" where
  "handleToolCall_remote r params b =
     (if nullish params
      then (Inl (TypeError (''Cannot destructure property 'name' of 'params' as it is ''
                            @ to_string params @ ''.'')), b)
      else
        let name = get_prop params ''name'';
            args = get_prop params ''arguments''
        in if name = JStr ''create_event'' then createEvent_remote r args b
           else if name = JStr ''list_events'' then listEvents_remote r args b
           else if name = JStr ''get_event'' then getEvent_remote r args b
           else if name = JStr ''update_event'' then updateEvent_remote r args b
           else if name = JStr ''delete_event'' then deleteEvent_remote r args b
           else if name = JStr ''list_calendars'' then listCalendars_remote r args b
           else if name = JStr ''search_events'' then searchEvents_remote r args b
           else (Inl (Error (''Unknown tool: '' @ to_string name)), b))"

definition mcp_try_remote ::
  "'b remote \<Rightarrow> json \<Rightarrow> 'b \<Rightarrow> (js_error + remote_result response) \<times> 'b" where
  "mcp_try_remote r body b =
     (if nullish body
      then (Inl (TypeError (''Cannot destructure property 'jsonrpc' of 'req.body' as it is ''
                            @ to_string body @ ''.'')), b)
      else
        let jsonrpc = get_prop body ''jsonrpc'';
            method = get_prop body ''method'';
            params = get_prop body ''params'';
            i = get_prop body ''id''
        in if jsonrpc \<noteq> JStr ''2.0''
           then (Inr (createError i (- 32600) ''Invalid Request'' JUndefined), b)
           else if method = JStr ''initialize''
           then (Inr (createResponse i (Some InitializeResult) None), b)
           else if method = JStr ''notifications/initialized''
           then (Inr (createResponse i (Some EmptyResult) None), b)
           else if method = JStr ''tools/list''
           then (Inr (createResponse i (Some ToolsListResult) None), b)
           else if method = JStr ''tools/call''
           then (if \<not> truthy (isAuthenticated (userTokens r))
                 then (Inr (createError i (- 32001) ''Authentication required''
                              (JObj [(''auth_url'', JStr (to_string (BASE_URL r) @ ''/auth''))])), b)
                 else (case handleToolCall_remote r params b of
                         (Inl err, b') \<Rightarrow> (Inl err, b')
                       | (Inr res, b') \<Rightarrow>
                           (Inr (createResponse i (Some (CallResult res)) None), b')))
           else (Inr (createError i (- 32601) ''Method not found'' JUndefined), b))"

definition mcp_remote ::
  "'b remote \<Rightarrow> json \<Rightarrow> 'b \<Rightarrow> remote_result response \<times> 'b" where
  "mcp_remote r body b =
     (case mcp_try_remote r body b of
        (Inr resp, b') \<Rightarrow> (resp, b')
      | (Inl err, b') \<Rightarrow>
          (createError (js_or (if nullish body then JUndefined else get_prop body ''id'') JNull)
                       (- 32603) ''Internal error'' (JStr (error_message err)),
           b'))"

section \<open>Requests, runs and concrete inputs\<close>

text \<open>The envelope of a \<open>tools/call\<close> request.\<close>

definition tools_call :: "json \<Rightarrow> string \<Rightarrow> json \<Rightarrow> json" where
  "tools_call i name args =
     JObj [(''jsonrpc'', JStr ''2.0''), (''id'', i), (''method'', JStr ''tools/call''),
           (''params'', JObj [(''name'', JStr name), (''arguments'', args)])]"

text \<open>
  The store after a sequence of requests to \<open>/mcp\<close>, each with the environment it was
  served in. The server starts with \<open>events = []\<close>.
\<close>

fun run :: "event list \<Rightarrow> (env \<times> json) list \<Rightarrow> event list" where
  "run events [] = events"
| "run events ((e, body) # rest) = run (snd (mcp e body events)) rest"

text \<open>The events a tool returned (none when it threw).\<close>

fun returned :: "tool_result outcome \<Rightarrow> event list" where
  "returned (Inr (ToolResult t (EventsPayload evs)), events) = evs"
| "returned (Inr (ToolResult t (EventPayload ev)), events) = [ev]"
| "returned other = []"

text \<open>
  An environment for the examples: \<open>new Date\<close> on the timestamps the examples use
  (an invalid date on everything else), a numeric reading of strings that knows
  \<open>"3"\<close> only, and the lower-casing of the ASCII letters, which is what
  \<open>String.prototype.toLowerCase\<close> does on the ASCII strings of the examples.
\<close>

definition ascii_lower_char :: "char \<Rightarrow> char" where
  "ascii_lower_char c =
     (case map_of (zip ''ABCDEFGHIJKLMNOPQRSTUVWXYZ'' ''abcdefghijklmnopqrstuvwxyz'') c of
        Some d \<Rightarrow> d
      | None \<Rightarrow> c)"

definition ascii_lower :: "string \<Rightarrow> string" where
  "ascii_lower s = map ascii_lower_char s"

definition example_newDate :: "json \<Rightarrow> int option" where
  "example_newDate v =
     (if v = JStr ''2024-01-15T10:00:00Z'' then Some 1705312800000
      else if v = JStr ''2024-01-15'' then Some 1705276800000
      else if v = JStr ''2024-02-01'' then Some 1706745600000
      else if v = JStr ''2024-03-01T09:00:00Z'' then Some 1709283600000
      else None)"

definition example_env :: env where
  "example_env =
     \<lparr> uuidv4 = ''9b2f6c1e-7d43-4c1a-8f0e-3a5d2b7c9e10'',
       now = 1705312800000,
       newDate = example_newDate,
       stringToNumber = (\<lambda>s. if s = ''3'' then Fin 3 else NaN),
       toLowerCase = ascii_lower \<rparr>"

definition standup :: event where
  "standup =
     \<lparr> event_id = ''1d4e8a52-0c3b-4f6e-9a7d-5b2c8e1f0a34'',
       title = JStr ''Standup'',
       description = JStr '''',
       start_time = JStr ''2024-01-15T10:00:00Z'',
       end_time = JStr ''2024-01-15T10:15:00Z'',
       location = JStr '''',
       attendees = JArr [],
       created_at = 1705000000000,
       updated_at = None \<rparr>"

definition team_meeting :: event where
  "team_meeting =
     \<lparr> event_id = ''c7a1e3f9-2b5d-4e8c-b6a0-9d3f1e7c5a28'',
       title = JStr ''Team Meeting'',
       description = JStr ''Weekly sync'',
       start_time = JStr ''2024-03-01T09:00:00Z'',
       end_time = JStr ''2024-03-01T10:00:00Z'',
       location = JStr ''Room A'',
       attendees = JArr [JStr ''ana@example.com''],
       created_at = 1705100000000,
       updated_at = None \<rparr>"

text \<open>
  A provider for the examples: it answers every request with an empty object and its state
  is the list of the requests it has received.
\<close>

definition example_remote :: "api_call list remote" where
  "example_remote =
     \<lparr> BASE_URL = JStr ''http://localhost:3000'',
       userTokens = JObj [],
       calendar = (\<lambda>b c. (Inr (JObj []), b @ [c])),
       strToNumber = (\<lambda>s. NaN) \<rparr>"

text \<open>The same provider with both tokens stored.\<close>

definition example_remote_authed :: "api_call list remote" where
  "example_remote_authed =
     \<lparr> BASE_URL = JStr ''http://localhost:3000'',
       userTokens = JObj [(''access_token'', JStr ''ya29.a0''), (''refresh_token'', JStr ''1//0g'')],
       calendar = (\<lambda>b c. (Inr (JObj []), b @ [c])),
       strToNumber = (\<lambda>s. NaN) \<rparr>"

text \<open>The event that \<open>create_event\<close> with the arguments \<open>{}\<close> stores in \<open>example_env\<close>.\<close>

definition untitled :: event where
  "untitled =
     \<lparr> event_id = ''9b2f6c1e-7d43-4c1a-8f0e-3a5d2b7c9e10'',
       title = JUndefined,
       description = JStr '''',
       start_time = JUndefined,
       end_time = JUndefined,
       location = JStr '''',
       attendees = JArr [],
       created_at = 1705312800000,
       updated_at = None \<rparr>"

section \<open>Notions of the specification\<close>

text \<open>
  An event passes the date filters of \<open>list_events\<close>: its \<open>start_time\<close> is not before
  \<open>start_date\<close> when that is given, and not after \<open>end_date\<close> when that is given.
  A bound is given when its value is truthy.
\<close>

definition in_window :: "env \<Rightarrow> json \<Rightarrow> event \<Rightarrow> bool" where
  "in_window e args ev =
     ((truthy (get_prop args ''start_date'') \<longrightarrow>
         date_ge (newDate e (start_time ev)) (newDate e (get_prop args ''start_date'')))
      \<and> (truthy (get_prop args ''end_date'') \<longrightarrow>
         date_le (newDate e (start_time ev)) (newDate e (get_prop args ''end_date''))))"

text \<open>
  \<open>s\<close> contains \<open>q\<close> as a case-insensitive substring: with case set aside by the
  runtime's lower-casing \<open>lc\<close>, \<open>q\<close> is a contiguous run of \<open>s\<close>.
\<close>

definition ci_substring :: "(string \<Rightarrow> string) \<Rightarrow> string \<Rightarrow> string \<Rightarrow> bool" where
  "ci_substring lc q s = (\<exists>pre post. lc s = pre @ lc q @ post)"

text \<open>The title or the description of an event contains \<open>q\<close> in that sense.\<close>

definition mentions :: "(string \<Rightarrow> string) \<Rightarrow> string \<Rightarrow> event \<Rightarrow> bool" where
  "mentions lc q ev =
     ((\<exists>t. title ev = JStr t \<and> ci_substring lc q t)
      \<or> (\<exists>d. description ev = JStr d \<and> ci_substring lc q d))"

text \<open>
  What one request can do to the ids in the array of events: leave them as they are, add
  the id that \<open>uuidv4()\<close> returned at the end, or remove one event.
\<close>

definition store_step :: "env \<Rightarrow> event list \<Rightarrow> event list \<Rightarrow> bool" where
  "store_step e s s' =
     (map event_id s' = map event_id s
      \<or> map event_id s' = map event_id s @ [uuidv4 e]
      \<or> (\<exists>i. i < length s \<and> s' = take i s @ drop (Suc i) s))"

section \<open>Basic facts\<close>

lemma createError_eq:
  "createError i c m d = \<lparr> jsonrpc = ''2.0'', rpc_id = i, result = None,
      error = Some \<lparr> code = c, message = m, data = (if d = JUndefined then JNull else d) \<rparr> \<rparr>"
  by (simp add: createError_def createResponse_def)

lemma createResponse_result:
  "createResponse i (Some res) None =
     \<lparr> jsonrpc = ''2.0'', rpc_id = i, result = Some res, error = None \<rparr>"
  by (simp add: createResponse_def)

lemma findIndex_None: "findIndex p xs = None \<longleftrightarrow> (\<forall>x\<in>set xs. \<not> p x)"
  by (induction xs) (auto split: option.splits)

lemma findIndex_Some:
  "findIndex p xs = Some i \<Longrightarrow> i < length xs \<and> p (xs ! i)"
  by (induction xs arbitrary: i) (auto split: if_splits option.splits)


lemma get_prop_tools_call [simp]:
  "get_prop (tools_call i name args) ''jsonrpc'' = JStr ''2.0''"
  "get_prop (tools_call i name args) ''id'' = i"
  "get_prop (tools_call i name args) ''method'' = JStr ''tools/call''"
  "get_prop (tools_call i name args) ''params'' = JObj [(''name'', JStr name), (''arguments'', args)]"
  "\<not> nullish (tools_call i name args)"
  by (simp_all add: tools_call_def nullish_def)

text \<open>
  A \<open>tools/call\<close> request is answered with the tool's result, or, when the tool throws,
  through the \<open>catch\<close> of the handler.
\<close>

lemma mcp_tools_call:
  "mcp e (tools_call i name args) events =
     (case handleToolCall e (JObj [(''name'', JStr name), (''arguments'', args)]) events of
        (Inr res, events') \<Rightarrow>
          (\<lparr> jsonrpc = ''2.0'', rpc_id = i, result = Some (CallResult res), error = None \<rparr>, events')
      | (Inl err, events') \<Rightarrow>
          (\<lparr> jsonrpc = ''2.0'', rpc_id = js_or i JNull, result = None,
             error = Some \<lparr> code = - 32603, message = ''Internal error'',
                             data = JStr (error_message err) \<rparr> \<rparr>, events'))"
  by (simp add: mcp_def mcp_try_def createError_eq createResponse_result
           split: prod.splits sum.splits)

lemma mcp_remote_tools_call:
  assumes "truthy (isAuthenticated (userTokens r))"
  shows "mcp_remote r (tools_call i name args) b =
     (case handleToolCall_remote r (JObj [(''name'', JStr name), (''arguments'', args)]) b of
        (Inr res, b') \<Rightarrow>
          (\<lparr> jsonrpc = ''2.0'', rpc_id = i, result = Some (CallResult res), error = None \<rparr>, b')
      | (Inl err, b') \<Rightarrow>
          (\<lparr> jsonrpc = ''2.0'', rpc_id = js_or i JNull, result = None,
             error = Some \<lparr> code = - 32603, message = ''Internal error'',
                             data = JStr (error_message err) \<rparr> \<rparr>, b'))"
  using assms
  by (simp add: mcp_remote_def mcp_try_remote_def createError_eq createResponse_result
           split: prod.splits sum.splits)

text \<open>
  Every response built inside the \<open>try\<close> block carries the request's id as it came.
  Whatever is thrown there is reported with code \<open>-32603\<close>, the message
  \<open>Internal error\<close> and the thrown message as \<open>data\<close>; the id of that response is
  \<open>req.body?.id || null\<close>.
\<close>

lemma responses_echo_id:
  assumes "mcp_try e body events = (Inr resp, events')"
  shows "rpc_id resp = get_prop body ''id''"
  using assms
  by (auto simp: mcp_try_def Let_def createError_eq createResponse_result
           split: if_splits prod.splits sum.splits)

lemma internal_error_response:
  assumes "mcp_try e body events = (Inl err, events')"
  shows "mcp e body events =
     (\<lparr> jsonrpc = ''2.0'',
        rpc_id = js_or (if nullish body then JUndefined else get_prop body ''id'') JNull,
        result = None,
        error = Some \<lparr> code = - 32603, message = ''Internal error'',
                        data = JStr (error_message err) \<rparr> \<rparr>,
      events')"
  using assms by (simp add: mcp_def createError_eq)

section \<open>Creating events\<close>

text \<open>
  C1, as the spec states it, fails: the in-memory server accepts \<open>create_event\<close> with the
  arguments \<open>{}\<close>. The call is answered without an error and an event with no title and
  no times is stored.
\<close>

theorem create_event_missing_fields_counterexample:
  "mcp example_env (tools_call (JNum 1) ''create_event'' (JObj [])) [] =
     (\<lparr> jsonrpc = ''2.0'', rpc_id = JNum 1,
        result = Some (CallResult (ToolResult
          ''Event created successfully with ID: 9b2f6c1e-7d43-4c1a-8f0e-3a5d2b7c9e10''
          (EventPayload untitled))),
        error = None \<rparr>,
      [untitled])"
  by (simp add: mcp_tools_call handleToolCall_def createEvent_def nullish_def js_or_def
        example_env_def untitled_def Let_def)

text \<open>
  C1, amended. Neither server checks the required fields of \<open>create_event\<close>. In the
  in-memory server a call whose arguments are an object succeeds whatever fields are
  missing: it stores one event, with \<open>undefined\<close> for each of \<open>title\<close>,
  \<open>start_time\<close> and \<open>end_time\<close> that was not given. The call fails, reported with code
  \<open>-32603\<close> and with nothing stored, when the arguments themselves are missing
  (\<open>undefined\<close> or \<open>null\<close>). In the remote server (authenticated, no attendees given)
  the insert request is sent to the provider with the missing fields \<open>undefined\<close>, and
  the call fails, with code \<open>-32603\<close>, exactly when the provider's insert fails or
  returns no data.
\<close>

theorem create_event_unvalidated:
  "(\<not> nullish args \<longrightarrow>
      (let ev = \<lparr> event_id = uuidv4 e,
                  title = get_prop args ''title'',
                  description = js_or (get_prop args ''description'') (JStr ''''),
                  start_time = get_prop args ''start_time'',
                  end_time = get_prop args ''end_time'',
                  location = js_or (get_prop args ''location'') (JStr ''''),
                  attendees = js_or (get_prop args ''attendees'') (JArr []),
                  created_at = now e,
                  updated_at = None \<rparr>
       in mcp e (tools_call i ''create_event'' args) events =
            (\<lparr> jsonrpc = ''2.0'', rpc_id = i,
               result = Some (CallResult (ToolResult
                 (''Event created successfully with ID: '' @ uuidv4 e) (EventPayload ev))),
               error = None \<rparr>,
             events @ [ev])))
   \<and> (nullish args \<longrightarrow>
      mcp e (tools_call i ''create_event'' args) events =
        (\<lparr> jsonrpc = ''2.0'', rpc_id = js_or i JNull, result = None,
           error = Some \<lparr> code = - 32603, message = ''Internal error'',
                           data = JStr (error_message (cannot_read args ''title'')) \<rparr> \<rparr>,
         events))
   \<and> (truthy (isAuthenticated (userTokens r)) \<and> \<not> nullish args
        \<and> \<not> truthy (get_prop args ''attendees'') \<longrightarrow>
      mcp_remote r (tools_call i ''create_event'' args) b =
        (case calendar r b
                (EventsInsert
                   (JObj [(''calendarId'', js_or (get_prop args ''calendar_id'') (JStr ''primary'')),
                          (''resource'',
                           JObj [(''summary'', get_prop args ''title''),
                                 (''description'', js_or (get_prop args ''description'') (JStr '''')),
                                 (''location'', js_or (get_prop args ''location'') (JStr '''')),
                                 (''start'', JObj [(''dateTime'', get_prop args ''start_time''),
                                                   (''timeZone'', JStr ''UTC'')]),
                                 (''end'', JObj [(''dateTime'', get_prop args ''end_time''),
                                                 (''timeZone'', JStr ''UTC'')])]),
                          (''sendNotifications'', JBool True)])) of
           (Inl err, b') \<Rightarrow>
             (\<lparr> jsonrpc = ''2.0'', rpc_id = js_or i JNull, result = None,
                error = Some \<lparr> code = - 32603, message = ''Internal error'',
                                data = JStr (''Failed to create event: '' @ error_message err) \<rparr> \<rparr>,
              b')
         | (Inr d, b') \<Rightarrow>
             if nullish d
             then (\<lparr> jsonrpc = ''2.0'', rpc_id = js_or i JNull, result = None,
                     error = Some \<lparr> code = - 32603, message = ''Internal error'',
                                     data = JStr (''Failed to create event: ''
                                                  @ error_message (cannot_read d ''summary'')) \<rparr> \<rparr>,
                   b')
             else (\<lparr> jsonrpc = ''2.0'', rpc_id = i,
                     result = Some (CallResult (RemoteResult
                       (''Event created successfully: '' @ to_string (get_prop d ''summary''))
                       (REvent d))),
                     error = None \<rparr>,
                   b')))"
  (is "(_ \<longrightarrow> ?stored) \<and> (_ \<longrightarrow> ?thrown) \<and> (_ \<longrightarrow> ?forwarded)")
proof (intro conjI impI)
  assume "\<not> nullish args"
  then show ?stored
    by (simp add: mcp_tools_call handleToolCall_def createEvent_def nullish_def Let_def)
next
  assume "nullish args"
  then show ?thrown
    by (simp add: mcp_tools_call handleToolCall_def createEvent_def nullish_def Let_def)
next
  assume a: "truthy (isAuthenticated (userTokens r)) \<and> \<not> nullish args
               \<and> \<not> truthy (get_prop args ''attendees'')"
  then have auth: "truthy (isAuthenticated (userTokens r))"
    by simp
  show ?forwarded
    using a
    by (simp add: mcp_remote_tools_call [OF auth] handleToolCall_remote_def createEvent_remote_def
          getCalendarClient_def nullish_def Let_def split: prod.splits sum.splits)
qed

theorem create_event_unvalidated_witness:
  "mcp example_env
       (tools_call (JNum 1) ''create_event'' (JObj [(''description'', JStr ''no title'')]))
       [standup] =
     (\<lparr> jsonrpc = ''2.0'', rpc_id = JNum 1,
        result = Some (CallResult (ToolResult
          ''Event created successfully with ID: 9b2f6c1e-7d43-4c1a-8f0e-3a5d2b7c9e10''
          (EventPayload (untitled\<lparr>description := JStr ''no title''\<rparr>)))),
        error = None \<rparr>,
      [standup, untitled\<lparr>description := JStr ''no title''\<rparr>])
   \<and> mcp example_env (tools_call (JNum 2) ''create_event'' JUndefined) [standup] =
     (\<lparr> jsonrpc = ''2.0'', rpc_id = JNum 2, result = None,
        error = Some \<lparr> code = - 32603, message = ''Internal error'',
                        data = JStr ''Cannot read properties of undefined (reading 'title')'' \<rparr> \<rparr>,
      [standup])
   \<and> mcp_remote example_remote_authed (tools_call (JNum 3) ''create_event'' (JObj [])) [] =
     (\<lparr> jsonrpc = ''2.0'', rpc_id = JNum 3,
        result = Some (CallResult (RemoteResult ''Event created successfully: undefined''
                                                (REvent (JObj [])))),
        error = None \<rparr>,
      [EventsInsert
         (JObj [(''calendarId'', JStr ''primary''),
                (''resource'',
                 JObj [(''summary'', JUndefined), (''description'', JStr ''''),
                       (''location'', JStr ''''),
                       (''start'', JObj [(''dateTime'', JUndefined), (''timeZone'', JStr ''UTC'')]),
                       (''end'', JObj [(''dateTime'', JUndefined), (''timeZone'', JStr ''UTC'')])]),
                (''sendNotifications'', JBool True)])])"
  using create_event_unvalidated
          [of "JObj [(''description'', JStr ''no title'')]" example_env "JNum 1" "[standup]"
              example_remote "[]"]
        create_event_unvalidated
          [of JUndefined example_env "JNum 2" "[standup]" example_remote "[]"]
        create_event_unvalidated
          [of "JObj []" example_env "JNum 3" "[]" example_remote_authed "[]"]
  by (simp add: nullish_def js_or_def js_and_def isAuthenticated_def example_env_def
        example_remote_def example_remote_authed_def untitled_def cannot_read_def Let_def)

section \<open>Updating an event\<close>




section \<open>Listing events\<close>

lemma listEvents_eq:
  assumes "\<not> nullish args"
  shows "listEvents e args events =
     (Inr (ToolResult
        (''Found '' @ nat_to_string (length (slice0 (filter (in_window e args) events)
                  (toNumber (stringToNumber e) (js_or (get_prop args ''limit'') (JNum 10)))))
         @ '' events'')
        (EventsPayload (slice0 (filter (in_window e args) events)
                  (toNumber (stringToNumber e) (js_or (get_prop args ''limit'') (JNum 10)))))),
      events)"
proof -
  have f: "(let filteredEvents = events;
            filteredEvents =
              (if truthy (get_prop args ''start_date'')
               then let startDate = newDate e (get_prop args ''start_date'')
                    in filter (\<lambda>event. date_ge (newDate e (start_time event)) startDate)
                              filteredEvents
               else filteredEvents)
         in (if truthy (get_prop args ''end_date'')
               then let endDate = newDate e (get_prop args ''end_date'')
                    in filter (\<lambda>event. date_le (newDate e (start_time event)) endDate)
                              filteredEvents
               else filteredEvents)) = filter (in_window e args) events"
    by (simp add: in_window_def [abs_def] Let_def)
  show ?thesis
    using assms f by (simp add: listEvents_def Let_def)
qed

text \<open>
  C3, as the spec states it, fails on the limit. With \<open>limit = -1\<close> and two stored events
  one event is returned, which is more than \<open>-1\<close>: \<open>slice(0, -1)\<close> drops the last entry.
  With \<open>limit = 0\<close> and one stored event that event is returned, which is more than \<open>0\<close>.
\<close>

theorem list_events_limit_counterexample:
  "returned (listEvents example_env (JObj [(''limit'', JNum (- 1))]) [standup, team_meeting])
     = [standup]
   \<and> returned (listEvents example_env (JObj [(''limit'', JNum 0)]) [standup]) = [standup]"
  by (simp add: listEvents_def nullish_def js_or_def example_env_def Let_def)

text \<open>
  C3, amended. \<open>list_events\<close> leaves the store as it is and returns events of the store, in
  store order, each of which passes the date filters: \<open>start_time\<close> is not before
  \<open>start_date\<close> when a (non-empty) \<open>start_date\<close> is given and not after \<open>end_date\<close>
  when a (non-empty) \<open>end_date\<close> is given, both compared with \<open>start_time\<close> only. The
  result is the filtered sequence cut by \<open>slice(0, limit || 10)\<close>: when \<open>limit\<close> is a
  positive integer \<open>n\<close> these are its first \<open>n\<close> entries, at most \<open>n\<close>; when \<open>limit\<close>
  is absent its first 10.
\<close>

theorem list_events_window_and_limit:
  assumes "\<not> nullish args"
  shows "\<exists>out. listEvents e args events =
            (Inr (ToolResult (''Found '' @ nat_to_string (length out) @ '' events'')
                             (EventsPayload out)), events)
         \<and> out = slice0 (filter (in_window e args) events)
                   (toNumber (stringToNumber e) (js_or (get_prop args ''limit'') (JNum 10)))
         \<and> (\<forall>ev\<in>set out. ev \<in> set events \<and> in_window e args ev)
         \<and> (\<forall>n. get_prop args ''limit'' = JNum n \<and> 0 < n \<longrightarrow>
                out = take (nat n) (filter (in_window e args) events) \<and> int (length out) \<le> n)
         \<and> (get_prop args ''limit'' = JUndefined \<longrightarrow>
                out = take 10 (filter (in_window e args) events) \<and> length out \<le> 10)"
proof -
  let ?f = "filter (in_window e args) events"
  let ?out = "slice0 ?f (toNumber (stringToNumber e) (js_or (get_prop args ''limit'') (JNum 10)))"
  have sub: "set (slice0 xs n) \<subseteq> set xs" for xs :: "event list" and n
    by (cases n) (auto dest: in_set_takeD)
  have a: "\<forall>ev\<in>set ?out. ev \<in> set events \<and> in_window e args ev"
    using sub [of ?f] by auto
  have b: "\<forall>n. get_prop args ''limit'' = JNum n \<and> 0 < n \<longrightarrow>
                ?out = take (nat n) ?f \<and> int (length ?out) \<le> n"
    by (auto simp: js_or_def)
  have c: "get_prop args ''limit'' = JUndefined \<longrightarrow> ?out = take 10 ?f \<and> length ?out \<le> 10"
    by (auto simp: js_or_def)
  show ?thesis
    using listEvents_eq [OF assms, of e events] a b c by blast
qed

theorem list_events_window_and_limit_witness:
  "listEvents example_env
       (JObj [(''start_date'', JStr ''2024-02-01''), (''limit'', JNum 1)])
       [standup, team_meeting, team_meeting\<lparr>title := JStr ''Review''\<rparr>] =
     (Inr (ToolResult ''Found 1 events'' (EventsPayload [team_meeting])),
      [standup, team_meeting, team_meeting\<lparr>title := JStr ''Review''\<rparr>])"
  using list_events_window_and_limit
          [of "JObj [(''start_date'', JStr ''2024-02-01''), (''limit'', JNum 1)]" example_env
              "[standup, team_meeting, team_meeting\<lparr>title := JStr ''Review''\<rparr>]"]
  by (simp add: listEvents_def nullish_def js_or_def example_env_def example_newDate_def
        date_ge_def standup_def team_meeting_def Let_def)

section \<open>Identifiers\<close>

text \<open>
  Every tool, and so every request, changes the ids in the store in one of the three ways
  of \<open>store_step\<close>: only \<open>create_event\<close> adds an id, and it is the one
  \<open>uuidv4()\<close> returned; \<open>update_event\<close> keeps the id of the event it changes.
\<close>

lemma createEvent_step: "store_step e s (snd (createEvent e args s))"
  by (simp add: createEvent_def store_step_def Let_def)

lemma listEvents_step: "snd (listEvents e args s) = s"
  by (simp add: listEvents_def Let_def)

lemma getEvent_step: "snd (getEvent e args s) = s"
  by (simp add: getEvent_def split: option.splits)

lemma searchEvents_step: "snd (searchEvents e args s) = s"
  by (simp add: searchEvents_def Let_def split: json.splits sum.splits)

lemma updateEvent_ids: "map event_id (snd (updateEvent e args s)) = map event_id s"
proof (cases "findIndex (\<lambda>ev. JStr (event_id ev) = get_prop args ''event_id'') s")
  case None
  then show ?thesis by (simp add: updateEvent_def)
next
  case (Some i)
  then have "i < length s" by (simp add: findIndex_Some)
  then show ?thesis
    using Some
    by (simp add: updateEvent_def Let_def map_update list_update_same_conv
          if_distrib [of event_id])
qed

lemma updateEvent_step: "store_step e s (snd (updateEvent e args s))"
  by (simp add: store_step_def updateEvent_ids)

lemma deleteEvent_step: "store_step e s (snd (deleteEvent e args s))"
proof (cases "findIndex (\<lambda>ev. JStr (event_id ev) = get_prop args ''event_id'') s")
  case None
  then show ?thesis by (simp add: deleteEvent_def store_step_def)
next
  case (Some i)
  then have "i < length s" by (simp add: findIndex_Some)
  then have "\<exists>j. j < length s \<and> take i s @ drop (Suc i) s = take j s @ drop (Suc j) s"
    by blast
  then show ?thesis
    using Some by (simp add: deleteEvent_def store_step_def Let_def)
qed

lemma store_step_refl: "store_step e s s"
  by (simp add: store_step_def)

lemma handleToolCall_step: "store_step e s (snd (handleToolCall e params s))"
  by (simp add: handleToolCall_def Let_def createEvent_step updateEvent_step deleteEvent_step
        listEvents_step getEvent_step searchEvents_step store_step_refl)

lemma snd_mcp: "snd (mcp e body s) = snd (mcp_try e body s)"
  by (simp add: mcp_def split: prod.splits sum.splits)

lemma snd_mcp_try:
  "snd (mcp_try e body s) =
     (if \<not> nullish body \<and> get_prop body ''jsonrpc'' = JStr ''2.0''
         \<and> get_prop body ''method'' = JStr ''tools/call''
      then snd (handleToolCall e (get_prop body ''params'') s)
      else s)"
  by (simp add: mcp_try_def Let_def split: prod.splits sum.splits)

lemma mcp_step: "store_step e s (snd (mcp e body s))"
  by (simp add: snd_mcp snd_mcp_try handleToolCall_step store_step_refl)

text \<open>
  So the ids in the store are among those \<open>uuidv4()\<close> has returned, and they stay
  pairwise distinct as long as \<open>uuidv4()\<close> returns ids that are new.
\<close>

lemma store_step_ids:
  assumes "store_step e s s'"
  shows "event_id ` set s' \<subseteq> insert (uuidv4 e) (event_id ` set s)"
proof -
  consider "map event_id s' = map event_id s"
    | "map event_id s' = map event_id s @ [uuidv4 e]"
    | i where "i < length s" "s' = take i s @ drop (Suc i) s"
    using assms unfolding store_step_def by blast
  then show ?thesis
  proof cases
    case 1
    then have "set (map event_id s') = set (map event_id s)" by simp
    then show ?thesis by auto
  next
    case 2
    then have "set (map event_id s') = set (map event_id s @ [uuidv4 e])" by simp
    then show ?thesis by auto
  next
    case 3
    have "set s' \<subseteq> set s"
      unfolding 3(2) using set_take_subset [of i s] set_drop_subset [of "Suc i" s] by auto
    then show ?thesis by auto
  qed
qed

lemma store_step_distinct:
  assumes "store_step e s s'" and "distinct (map event_id s)"
      and "uuidv4 e \<notin> event_id ` set s"
  shows "distinct (map event_id s')"
proof -
  consider "map event_id s' = map event_id s"
    | "map event_id s' = map event_id s @ [uuidv4 e]"
    | i where "i < length s" "s' = take i s @ drop (Suc i) s"
    using assms(1) unfolding store_step_def by blast
  then show ?thesis
  proof cases
    case 1
    then show ?thesis using assms(2) by simp
  next
    case 2
    then show ?thesis using assms(2,3) by simp
  next
    case 3
    have "distinct (take i (map event_id s) @ drop (Suc i) (map event_id s))"
      using assms(2) by (simp add: set_take_disj_set_drop_if_distinct)
    then show ?thesis unfolding 3(2) by (simp add: take_map drop_map)
  qed
qed

lemma run_ids:
  "event_id ` set (run s reqs) \<subseteq> event_id ` set s \<union> (\<lambda>rq. uuidv4 (fst rq)) ` set reqs"
proof (induction reqs arbitrary: s)
  case Nil
  then show ?case by simp
next
  case (Cons rq reqs)
  obtain e body where rq: "rq = (e, body)" by (cases rq)
  let ?s = "snd (mcp e body s)"
  have a: "event_id ` set ?s \<subseteq> insert (uuidv4 e) (event_id ` set s)"
    using mcp_step store_step_ids by blast
  have b: "event_id ` set (run ?s reqs)
             \<subseteq> event_id ` set ?s \<union> (\<lambda>rq. uuidv4 (fst rq)) ` set reqs"
    by (rule Cons.IH)
  have c: "run s (rq # reqs) = run ?s reqs"
    by (simp add: rq)
  have d: "(\<lambda>rq. uuidv4 (fst rq)) ` set (rq # reqs)
             = insert (uuidv4 e) ((\<lambda>rq. uuidv4 (fst rq)) ` set reqs)"
    by (simp add: rq)
  show ?case
    unfolding c d using a b by blast
qed

lemma run_distinct:
  assumes "distinct (map event_id s)"
      and "distinct (map (\<lambda>rq. uuidv4 (fst rq)) reqs)"
      and "\<forall>rq\<in>set reqs. uuidv4 (fst rq) \<notin> event_id ` set s"
  shows "distinct (map event_id (run s reqs))"
  using assms
proof (induction s reqs rule: run.induct)
  case (1 events)
  then show ?case by simp
next
  case (2 events e body rest)
  let ?s = "snd (mcp e body events)"
  have ids: "event_id ` set ?s \<subseteq> insert (uuidv4 e) (event_id ` set events)"
    using mcp_step by (rule store_step_ids)
  have fresh: "uuidv4 e \<notin> event_id ` set events"
    using "2.prems"(3) by simp
  have d: "distinct (map event_id ?s)"
    using mcp_step "2.prems"(1) fresh by (rule store_step_distinct)
  have du: "distinct (map (\<lambda>rq. uuidv4 (fst rq)) rest)"
    using "2.prems"(2) by simp
  have "uuidv4 e \<notin> (\<lambda>rq. uuidv4 (fst rq)) ` set rest"
    using "2.prems"(2) by simp
  then have u: "\<forall>rq\<in>set rest. uuidv4 (fst rq) \<noteq> uuidv4 e"
    by (metis image_eqI)
  have "\<forall>rq\<in>set rest. uuidv4 (fst rq) \<notin> event_id ` set events"
    using "2.prems"(3) by simp
  then have "\<forall>rq\<in>set rest. uuidv4 (fst rq) \<notin> event_id ` set ?s"
    using ids u by blast
  then have "distinct (map event_id (run ?s rest))"
    using d du by (rule "2.IH" [rotated 2])
  then show ?case by simp
qed


text \<open>A \<open>delete_event\<close> request that is answered without an error removed one event.\<close>

lemma delete_succeeded:
  assumes "mcp e (tools_call i ''delete_event'' args) s = (resp, s')" and "error resp = None"
  shows "\<exists>k. findIndex (\<lambda>ev. JStr (event_id ev) = get_prop args ''event_id'') s = Some k
             \<and> s' = take k s @ drop (Suc k) s \<and> \<not> nullish args"
proof -
  have h: "handleToolCall e (JObj [(''name'', JStr ''delete_event''), (''arguments'', args)]) s
             = deleteEvent e args s"
    by (simp add: handleToolCall_def nullish_def)
  show ?thesis
  proof (cases "nullish args")
    case True
    then show ?thesis
      using assms by (auto simp: mcp_tools_call h deleteEvent_def)
  next
    case False
    show ?thesis
    proof (cases "findIndex (\<lambda>ev. JStr (event_id ev) = get_prop args ''event_id'') s")
      case None
      then show ?thesis
        using assms False by (auto simp: mcp_tools_call h deleteEvent_def)
    next
      case (Some k)
      then show ?thesis
        using assms False by (auto simp: mcp_tools_call h deleteEvent_def Let_def)
    qed
  qed
qed

text \<open>Removing the event found by id from a store with distinct ids leaves none with that id.\<close>

lemma removed_id_gone:
  assumes "distinct (map event_id s)"
      and "findIndex (\<lambda>ev. JStr (event_id ev) = x) s = Some k"
  shows "\<forall>ev\<in>set (take k s @ drop (Suc k) s). JStr (event_id ev) \<noteq> x"
proof -
  have k: "k < length s" and x: "x = JStr (event_id (s ! k))"
    using findIndex_Some [OF assms(2)] by auto
  define ms where "ms = map event_id s"
  have km: "k < length ms" and dm: "distinct ms"
    using k assms(1) by (simp_all add: ms_def)
  have "ms = take k ms @ ms ! k # drop (Suc k) ms"
    using km by (rule id_take_nth_drop)
  then have "distinct (take k ms @ ms ! k # drop (Suc k) ms)"
    using dm by metis
  then have "ms ! k \<notin> set (take k ms) \<union> set (drop (Suc k) ms)"
    by auto
  then have "event_id (s ! k) \<notin> event_id ` set (take k s @ drop (Suc k) s)"
    using k by (simp add: ms_def take_map drop_map image_Un)
  then show ?thesis
    unfolding x by (metis image_eqI json.inject(3))
qed

text \<open>
  C4, as the spec states it, fails: the server takes every id from \<open>uuidv4()\<close> and never
  looks it up in the store or in what it has deleted. When \<open>uuidv4()\<close> returns for a
  later \<open>create_event\<close> the id of an event that was created and deleted before, that
  id is stored again and \<open>get_event\<close> on it succeeds.
\<close>

theorem reused_id_counterexample:
  "run [] [(example_env, tools_call (JNum 1) ''create_event'' (JObj []))] = [untitled]
   \<and> mcp example_env
         (tools_call (JNum 2) ''delete_event''
            (JObj [(''event_id'', JStr ''9b2f6c1e-7d43-4c1a-8f0e-3a5d2b7c9e10'')]))
         [untitled] =
       (\<lparr> jsonrpc = ''2.0'', rpc_id = JNum 2,
          result = Some (CallResult (ToolResult ''Event deleted successfully: undefined''
                     (DeletedPayload (JStr ''9b2f6c1e-7d43-4c1a-8f0e-3a5d2b7c9e10'')))),
          error = None \<rparr>, [])
   \<and> run [] [(example_env, tools_call (JNum 1) ''create_event'' (JObj [])),
               (example_env,
                tools_call (JNum 2) ''delete_event''
                  (JObj [(''event_id'', JStr ''9b2f6c1e-7d43-4c1a-8f0e-3a5d2b7c9e10'')])),
               (example_env, tools_call (JNum 3) ''create_event'' (JObj []))] = [untitled]
   \<and> getEvent example_env (JObj [(''event_id'', JStr ''9b2f6c1e-7d43-4c1a-8f0e-3a5d2b7c9e10'')])
         [untitled] =
       (Inr (ToolResult ''Event details for: undefined'' (EventPayload untitled)), [untitled])"
  by (simp add: mcp_tools_call handleToolCall_def createEvent_def deleteEvent_def getEvent_def
        nullish_def js_or_def example_env_def untitled_def Let_def)

text \<open>
  C4, amended. Provided \<open>uuidv4()\<close> never returns the same identifier twice: when
  the server starts with no events and serves any requests, then a \<open>delete_event\<close>
  request that succeeds, then any further requests, at every later moment no stored event
  has the deleted id (so no later \<open>create_event\<close> produced it), \<open>get_event\<close> with
  that id fails with \<open>Event not found\<close>, and the ids of the stored events are pairwise
  distinct. The server makes no check of its own that an id is new.
\<close>

theorem deleted_id_never_returns:
  assumes fresh: "distinct (map (\<lambda>rq. uuidv4 (fst rq)) (before @ after))"
      and del: "mcp ed (tools_call i ''delete_event'' args) (run [] before) = (resp, s1)"
      and ok: "error resp = None"
  shows "\<forall>k. (\<forall>ev\<in>set (run s1 (take k after)). JStr (event_id ev) \<noteq> get_prop args ''event_id'')
            \<and> getEvent e args (run s1 (take k after)) =
                (Inl (Error (''Event not found: '' @ to_string (get_prop args ''event_id''))),
                 run s1 (take k after))
            \<and> distinct (map event_id (run s1 (take k after)))"
proof
  fix k
  let ?U = "\<lambda>rs. (\<lambda>rq. uuidv4 (fst rq)) ` set rs"
  let ?s0 = "run [] before"
  let ?later = "take k after"
  let ?s2 = "run s1 ?later"
  obtain j where j: "findIndex (\<lambda>ev. JStr (event_id ev) = get_prop args ''event_id'') ?s0 = Some j"
      and s1: "s1 = take j ?s0 @ drop (Suc j) ?s0" and nn: "\<not> nullish args"
    using delete_succeeded [OF del ok] by blast
  have jl: "j < length ?s0" and E: "get_prop args ''event_id'' = JStr (event_id (?s0 ! j))"
    using findIndex_Some [OF j] by auto
  have d0: "distinct (map event_id ?s0)"
    using fresh by (intro run_distinct) auto
  have ids0: "event_id ` set ?s0 \<subseteq> ?U before"
    using run_ids [of "[]" before] by simp
  have sub: "set s1 \<subseteq> set ?s0"
    unfolding s1 using set_take_subset [of j ?s0] set_drop_subset [of "Suc j" ?s0] by auto
  have d1: "distinct (map event_id s1)"
  proof -
    have "distinct (take j (map event_id ?s0) @ drop (Suc j) (map event_id ?s0))"
      using d0 by (simp add: set_take_disj_set_drop_if_distinct)
    then show ?thesis unfolding s1 by (simp add: take_map drop_map)
  qed
  have gone: "\<forall>ev\<in>set s1. JStr (event_id ev) \<noteq> get_prop args ''event_id''"
    unfolding s1 using d0 j by (rule removed_id_gone)
  have disj: "?U before \<inter> ?U after = {}"
    using fresh by auto
  have later: "?U ?later \<subseteq> ?U after"
    using set_take_subset [of k after] by blast
  have dl: "distinct (map (\<lambda>rq. uuidv4 (fst rq)) ?later)"
    using fresh by (simp add: take_map [symmetric])
  have E0: "event_id (?s0 ! j) \<in> ?U before"
    using ids0 jl nth_mem by blast
  have ids2: "event_id ` set ?s2 \<subseteq> event_id ` set s1 \<union> ?U ?later"
    by (rule run_ids)
  have a: "\<forall>ev\<in>set ?s2. JStr (event_id ev) \<noteq> get_prop args ''event_id''"
  proof
    fix ev assume ev: "ev \<in> set ?s2"
    show "JStr (event_id ev) \<noteq> get_prop args ''event_id''"
    proof
      assume "JStr (event_id ev) = get_prop args ''event_id''"
      then have same: "event_id ev = event_id (?s0 ! j)"
        using E by simp
      have "event_id ev \<in> event_id ` set s1 \<or> event_id ev \<in> ?U ?later"
        using ids2 ev by blast
      then show False
      proof
        assume "event_id ev \<in> event_id ` set s1"
        then obtain x where "x \<in> set s1" "event_id x = event_id ev" by auto
        then show False using gone same E by auto
      next
        assume "event_id ev \<in> ?U ?later"
        then have "event_id (?s0 ! j) \<in> ?U after"
          using later same by auto
        then show False using E0 disj by blast
      qed
    qed
  qed
  have b: "getEvent e args ?s2 =
             (Inl (Error (''Event not found: '' @ to_string (get_prop args ''event_id''))), ?s2)"
  proof -
    have "find (\<lambda>ev. JStr (event_id ev) = get_prop args ''event_id'') ?s2 = None"
      using a by (simp add: find_None_iff)
    then show ?thesis using nn by (simp add: getEvent_def)
  qed
  have c: "distinct (map event_id ?s2)"
  proof (rule run_distinct [OF d1 dl])
    show "\<forall>rq\<in>set ?later. uuidv4 (fst rq) \<notin> event_id ` set s1"
    proof
      fix rq assume "rq \<in> set ?later"
      then have "uuidv4 (fst rq) \<in> ?U after"
        using later by blast
      then have "uuidv4 (fst rq) \<notin> ?U before"
        using disj by blast
      then show "uuidv4 (fst rq) \<notin> event_id ` set s1"
        using ids0 sub by blast
    qed
  qed
  show "(\<forall>ev\<in>set ?s2. JStr (event_id ev) \<noteq> get_prop args ''event_id'') \<and>
         getEvent e args ?s2 =
           (Inl (Error (''Event not found: '' @ to_string (get_prop args ''event_id''))), ?s2) \<and>
         distinct (map event_id ?s2)"
    using a b c by blast
qed

theorem deleted_id_never_returns_witness:
  "run [] [(example_env, tools_call (JNum 1) ''create_event'' (JObj []))] = [untitled]
   \<and> mcp example_env
         (tools_call (JNum 2) ''delete_event''
            (JObj [(''event_id'', JStr ''9b2f6c1e-7d43-4c1a-8f0e-3a5d2b7c9e10'')]))
         [untitled] =
       (\<lparr> jsonrpc = ''2.0'', rpc_id = JNum 2,
          result = Some (CallResult (ToolResult ''Event deleted successfully: undefined''
                     (DeletedPayload (JStr ''9b2f6c1e-7d43-4c1a-8f0e-3a5d2b7c9e10'')))),
          error = None \<rparr>, [])
   \<and> run [] (take 1 [(example_env\<lparr>uuidv4 := ''5e0c7a44-91d2-4b3f-a6e8-2f1d9c4b7a03''\<rparr>,
                       tools_call (JNum 3) ''create_event'' (JObj []))])
       = [untitled\<lparr>event_id := ''5e0c7a44-91d2-4b3f-a6e8-2f1d9c4b7a03''\<rparr>]
   \<and> getEvent example_env (JObj [(''event_id'', JStr ''9b2f6c1e-7d43-4c1a-8f0e-3a5d2b7c9e10'')])
         [untitled\<lparr>event_id := ''5e0c7a44-91d2-4b3f-a6e8-2f1d9c4b7a03''\<rparr>] =
       (Inl (Error ''Event not found: 9b2f6c1e-7d43-4c1a-8f0e-3a5d2b7c9e10''),
        [untitled\<lparr>event_id := ''5e0c7a44-91d2-4b3f-a6e8-2f1d9c4b7a03''\<rparr>])"
proof -
  let ?before = "[(example_env, tools_call (JNum 1) ''create_event'' (JObj []))]"
  let ?after = "[(example_env\<lparr>uuidv4 := ''5e0c7a44-91d2-4b3f-a6e8-2f1d9c4b7a03''\<rparr>,
                  tools_call (JNum 3) ''create_event'' (JObj []))]"
  let ?args = "JObj [(''event_id'', JStr ''9b2f6c1e-7d43-4c1a-8f0e-3a5d2b7c9e10'')]"
  let ?resp = "\<lparr> jsonrpc = ''2.0'', rpc_id = JNum 2,
          result = Some (CallResult (ToolResult ''Event deleted successfully: undefined''
                     (DeletedPayload (JStr ''9b2f6c1e-7d43-4c1a-8f0e-3a5d2b7c9e10'')))),
          error = None \<rparr>"
  have before: "run [] ?before = [untitled]"
    by (simp add: mcp_tools_call handleToolCall_def createEvent_def nullish_def js_or_def
          example_env_def untitled_def Let_def)
  have after: "run [] (take 1 ?after)
                 = [untitled\<lparr>event_id := ''5e0c7a44-91d2-4b3f-a6e8-2f1d9c4b7a03''\<rparr>]"
    by (simp add: mcp_tools_call handleToolCall_def createEvent_def nullish_def js_or_def
          example_env_def untitled_def Let_def)
  have fresh: "distinct (map (\<lambda>rq. uuidv4 (fst rq)) (?before @ ?after))"
    by (simp add: example_env_def)
  have del: "mcp example_env (tools_call (JNum 2) ''delete_event'' ?args) (run [] ?before)
               = (?resp, [])"
    unfolding before
    by (simp add: mcp_tools_call handleToolCall_def deleteEvent_def nullish_def untitled_def
          Let_def)
  have ok: "error ?resp = None"
    by simp
  from deleted_id_never_returns [OF fresh del ok, of example_env]
  have "getEvent example_env ?args (run [] (take 1 ?after)) =
          (Inl (Error (''Event not found: '' @ to_string (get_prop ?args ''event_id''))),
           run [] (take 1 ?after))"
    by blast
  then show ?thesis
    using before after del by simp
qed

section \<open>Unknown event ids\<close>

text \<open>
  C5. When the \<open>event_id\<close> of a \<open>get_event\<close>, \<open>update_event\<close> or \<open>delete_event\<close> call
  is the id of no stored event, the call fails with the error \<open>Event not found: <id>\<close> and
  the collection of events is exactly what it was.
\<close>

theorem unknown_event_id_not_found:
  assumes "\<not> nullish args"
      and "\<forall>ev\<in>set events. JStr (event_id ev) \<noteq> get_prop args ''event_id''"
  shows "getEvent e args events =
           (Inl (Error (''Event not found: '' @ to_string (get_prop args ''event_id''))), events)
       \<and> updateEvent e args events =
           (Inl (Error (''Event not found: '' @ to_string (get_prop args ''event_id''))), events)
       \<and> deleteEvent e args events =
           (Inl (Error (''Event not found: '' @ to_string (get_prop args ''event_id''))), events)"
proof -
  have "find (\<lambda>ev. JStr (event_id ev) = get_prop args ''event_id'') events = None"
    using assms(2) by (simp add: find_None_iff)
  moreover have "findIndex (\<lambda>ev. JStr (event_id ev) = get_prop args ''event_id'') events = None"
    using assms(2) by (simp add: findIndex_None)
  ultimately show ?thesis
    using assms(1) by (simp add: getEvent_def updateEvent_def deleteEvent_def)
qed

theorem unknown_event_id_not_found_witness:
  "getEvent example_env (JObj [(''event_id'', JStr ''nope'')]) [standup, team_meeting] =
     (Inl (Error ''Event not found: nope''), [standup, team_meeting])
   \<and> updateEvent example_env (JObj [(''event_id'', JStr ''nope'')]) [standup, team_meeting] =
     (Inl (Error ''Event not found: nope''), [standup, team_meeting])
   \<and> deleteEvent example_env (JObj [(''event_id'', JStr ''nope'')]) [standup, team_meeting] =
     (Inl (Error ''Event not found: nope''), [standup, team_meeting])"
  using unknown_event_id_not_found
    [of "JObj [(''event_id'', JStr ''nope'')]" "[standup, team_meeting]" example_env]
  by (simp add: nullish_def standup_def team_meeting_def)

section \<open>Searching events\<close>

lemma str_includes_sublist: "str_includes s q \<longleftrightarrow> sublist q s"
  by (induction s) (auto simp: sublist_Cons_right)

text \<open>What the code computes is the notion of the specification, whatever the lower-casing.\<close>

lemma includes_lower_iff: "str_includes (lc s) (lc q) \<longleftrightarrow> ci_substring lc q s"
  by (simp add: str_includes_sublist sublist_def ci_substring_def)

text \<open>
  For the lower-casing of the ASCII letters, that notion is: some run of \<open>s\<close> is \<open>q\<close>
  letter for letter, up to case.
\<close>

lemma map_eq_list_all2: "map f xs = map f ys \<longleftrightarrow> list_all2 (\<lambda>a b. f a = f b) xs ys"
proof
  assume "map f xs = map f ys"
  then show "list_all2 (\<lambda>a b. f a = f b) xs ys"
    by (induction xs arbitrary: ys) auto
next
  assume "list_all2 (\<lambda>a b. f a = f b) xs ys"
  then show "map f xs = map f ys"
    by (induction rule: list_all2_induct) auto
qed

lemma ascii_ci_substring_letterwise:
  "ci_substring ascii_lower q s \<longleftrightarrow>
     (\<exists>pre w post. s = pre @ w @ post
        \<and> list_all2 (\<lambda>a b. ascii_lower_char a = ascii_lower_char b) w q)"
proof
  assume "ci_substring ascii_lower q s"
  then obtain ps ss where "map ascii_lower_char s = ps @ map ascii_lower_char q @ ss"
    by (auto simp: ci_substring_def ascii_lower_def)
  then obtain pre rest where s: "s = pre @ rest"
      and r: "map ascii_lower_char rest = map ascii_lower_char q @ ss"
    by (metis map_eq_append_conv)
  from r obtain w post where "rest = w @ post"
      and "map ascii_lower_char w = map ascii_lower_char q"
    by (metis map_eq_append_conv)
  then show "\<exists>pre w post. s = pre @ w @ post
               \<and> list_all2 (\<lambda>a b. ascii_lower_char a = ascii_lower_char b) w q"
    using s by (auto simp: map_eq_list_all2)
next
  assume "\<exists>pre w post. s = pre @ w @ post
            \<and> list_all2 (\<lambda>a b. ascii_lower_char a = ascii_lower_char b) w q"
  then obtain pre w post where "s = pre @ w @ post"
      and "map ascii_lower_char w = map ascii_lower_char q"
    by (auto simp: map_eq_list_all2)
  then show "ci_substring ascii_lower q s"
    by (auto simp: ci_substring_def ascii_lower_def)
qed

lemma filter_throwing_total:
  assumes "\<forall>x\<in>set xs. p x = Inr (g x)"
  shows "filter_throwing p xs = Inr (filter g xs)"
  using assms by (induction xs) auto

lemma matches_strings:
  assumes "title ev = JStr t" and "description ev = JStr d"
  shows "matches e (toLowerCase e q) ev = Inr (mentions (toLowerCase e) q ev)"
  using assms by (auto simp: matches_def mentions_def includes_lower_iff)

text \<open>
  C6, as the spec states it, fails for some stores. \<open>create_event\<close> stores whatever title
  it is given, also none; a search then calls \<open>toLowerCase\<close> on a title that is not a
  string and throws, so no event is returned, whatever the query. And with \<open>limit = 0\<close>
  a matching event is returned, which is more than \<open>0\<close> entries.
\<close>

theorem search_events_counterexample:
  "searchEvents example_env (JObj [(''query'', JStr ''meeting'')]) [untitled, team_meeting] =
     (Inl (TypeError ''Cannot read properties of undefined (reading 'toLowerCase')''),
      [untitled, team_meeting])
   \<and> returned (searchEvents example_env (JObj [(''query'', JStr ''meeting''), (''limit'', JNum 0)])
                 [team_meeting]) = [team_meeting]"
  by (simp add: searchEvents_def matches_def not_a_function_def cannot_read_def nullish_def
        js_or_def ascii_lower_def ascii_lower_char_def untitled_def team_meeting_def
        example_env_def Let_def)

text \<open>
  C6, amended. When the query is a string and the title and the description of every
  stored event are strings, \<open>search_events\<close> leaves the store as it is and returns the
  events whose title or description contains the query as a case-insensitive substring
  (the title or description, lower-cased by \<open>String.prototype.toLowerCase\<close>, contains the
  query lower-cased the same way), in store order, cut by \<open>slice(0, limit || 10)\<close>: when
  \<open>limit\<close> is a positive integer \<open>n\<close> these are the first \<open>n\<close> matches, at most
  \<open>n\<close>; when \<open>limit\<close> is absent the first 10. Searching \<open>meeting\<close> matches an event
  titled \<open>Team Meeting\<close>.
\<close>

theorem search_events_case_insensitive:
  assumes "get_prop args ''query'' = JStr q"
      and "\<forall>ev\<in>set events. \<exists>t d. title ev = JStr t \<and> description ev = JStr d"
  shows "\<exists>out. searchEvents e args events =
            (Inr (ToolResult (''Found '' @ nat_to_string (length out) @ '' events matching ''
                               @ [CHR 0x22] @ q @ [CHR 0x22])
                             (EventsPayload out)), events)
         \<and> out = slice0 (filter (mentions (toLowerCase e) q) events)
                   (toNumber (stringToNumber e) (js_or (get_prop args ''limit'') (JNum 10)))
         \<and> (\<forall>n. get_prop args ''limit'' = JNum n \<and> 0 < n \<longrightarrow>
                out = take (nat n) (filter (mentions (toLowerCase e) q) events)
                \<and> int (length out) \<le> n)
         \<and> (get_prop args ''limit'' = JUndefined \<longrightarrow>
                out = take 10 (filter (mentions (toLowerCase e) q) events) \<and> length out \<le> 10)"
proof -
  have nn: "\<not> nullish args"
    using assms(1) by (auto simp: nullish_def)
  have "\<forall>ev\<in>set events. matches e (toLowerCase e q) ev = Inr (mentions (toLowerCase e) q ev)"
    using assms(2) matches_strings by blast
  then have f: "filter_throwing (matches e (toLowerCase e q)) events
                  = Inr (filter (mentions (toLowerCase e) q) events)"
    by (rule filter_throwing_total)
  show ?thesis
    using nn assms(1) f by (auto simp: searchEvents_def Let_def js_or_def)
qed

theorem search_events_case_insensitive_witness:
  "searchEvents example_env (JObj [(''query'', JStr ''meeting'')]) [standup, team_meeting] =
     (Inr (ToolResult (''Found 1 events matching '' @ [CHR 0x22] @ ''meeting'' @ [CHR 0x22])
                      (EventsPayload [team_meeting])),
      [standup, team_meeting])"
proof -
  have lc: "toLowerCase example_env = ascii_lower"
    by (simp add: example_env_def)
  have m: "mentions ascii_lower ''meeting'' team_meeting"
          "\<not> mentions ascii_lower ''meeting'' standup"
    by (simp_all add: mentions_def includes_lower_iff [symmetric] ascii_lower_def
          ascii_lower_char_def team_meeting_def standup_def)
  have s: "\<forall>ev\<in>set [standup, team_meeting]. \<exists>t d. title ev = JStr t \<and> description ev = JStr d"
    by (simp add: standup_def team_meeting_def)
  have q: "get_prop (JObj [(''query'', JStr ''meeting'')]) ''query'' = JStr ''meeting''"
    by simp
  show ?thesis
    using search_events_case_insensitive [OF q s, of example_env] m
    by (auto simp: js_or_def lc)
qed

section \<open>Failures caught by the router\<close>

text \<open>
  C7. The spec asks that a failure thrown while a request is handled be reported with the
  id recovered from the request. For a request with \<open>id = 0\<close> that names an unknown tool
  the code answers with code \<open>-32603\<close>, message \<open>Internal error\<close> and the thrown
  message as \<open>data\<close>, but with the id \<open>null\<close>: \<open>req.body?.id || null\<close> drops an id
  that is \<open>0\<close>, \<open>""\<close> or \<open>false\<close>, while every other response of the router
  carries the id as it came.
\<close>

theorem internal_error_drops_falsy_id:
  "mcp e (tools_call (JNum 0) ''no_such_tool'' (JObj [])) events =
     (\<lparr> jsonrpc = ''2.0'', rpc_id = JNull, result = None,
        error = Some \<lparr> code = - 32603, message = ''Internal error'',
                        data = JStr ''Unknown tool: no_such_tool'' \<rparr> \<rparr>,
      events)"
  by (simp add: mcp_tools_call handleToolCall_def nullish_def js_or_def)

section \<open>Envelope validation\<close>

text \<open>
  C8. An envelope whose \<open>jsonrpc\<close> field is not exactly the string \<open>"2.0"\<close> is answered,
  by both servers and whatever its \<open>method\<close>, with error code \<open>-32600\<close> and message
  \<open>Invalid Request\<close>; the response carries the request's \<open>id\<close> as it came, and the store
  (for the remote server: the provider) is left as it was.
\<close>

theorem invalid_jsonrpc_rejected:
  assumes "\<not> nullish body" and "get_prop body ''jsonrpc'' \<noteq> JStr ''2.0''"
  shows "mcp e body events =
           (\<lparr> jsonrpc = ''2.0'', rpc_id = get_prop body ''id'', result = None,
              error = Some \<lparr> code = - 32600, message = ''Invalid Request'', data = JNull \<rparr> \<rparr>,
            events)
         \<and> mcp_remote r body b =
           (\<lparr> jsonrpc = ''2.0'', rpc_id = get_prop body ''id'', result = None,
              error = Some \<lparr> code = - 32600, message = ''Invalid Request'', data = JNull \<rparr> \<rparr>,
            b)"
  using assms
  by (simp add: mcp_def mcp_try_def mcp_remote_def mcp_try_remote_def createError_eq)

theorem invalid_jsonrpc_rejected_witness:
  "mcp example_env
       (JObj [(''jsonrpc'', JStr ''1.0''), (''id'', JNum 7), (''method'', JStr ''tools/call''),
              (''params'', JObj [(''name'', JStr ''create_event''), (''arguments'', JObj [])])])
       [standup] =
     (\<lparr> jsonrpc = ''2.0'', rpc_id = JNum 7, result = None,
        error = Some \<lparr> code = - 32600, message = ''Invalid Request'', data = JNull \<rparr> \<rparr>,
      [standup])
   \<and> mcp_remote example_remote
       (JObj [(''jsonrpc'', JStr ''1.0''), (''id'', JNum 7), (''method'', JStr ''tools/call''),
              (''params'', JObj [(''name'', JStr ''create_event''), (''arguments'', JObj [])])])
       [] =
     (\<lparr> jsonrpc = ''2.0'', rpc_id = JNum 7, result = None,
        error = Some \<lparr> code = - 32600, message = ''Invalid Request'', data = JNull \<rparr> \<rparr>,
      [])"
  using invalid_jsonrpc_rejected
    [of "JObj [(''jsonrpc'', JStr ''1.0''), (''id'', JNum 7), (''method'', JStr ''tools/call''),
              (''params'', JObj [(''name'', JStr ''create_event''), (''arguments'', JObj [])])]"
        example_env "[standup]" example_remote "[]"]
  by (simp add: nullish_def)

section \<open>The authentication gate\<close>

text \<open>
  C9. In the server backed by the remote calendar, a \<open>tools/call\<close> request received
  while the access token or the refresh token is missing (more generally, while
  \<open>isAuthenticated()\<close> is falsy) is answered with error code \<open>-32001\<close>, message
  \<open>Authentication required\<close> and \<open>data.auth_url\<close> equal to \<open>BASE_URL\<close> followed by
  \<open>/auth\<close>, which is not empty; no request is sent to the provider, whatever the
  provider is.
\<close>

theorem unauthenticated_tools_call_refused:
  assumes "\<not> nullish body"
      and "get_prop body ''jsonrpc'' = JStr ''2.0''"
      and "get_prop body ''method'' = JStr ''tools/call''"
      and "get_prop (userTokens r) ''access_token'' = JUndefined
           \<or> get_prop (userTokens r) ''refresh_token'' = JUndefined
           \<or> \<not> truthy (isAuthenticated (userTokens r))"
  shows "mcp_remote r body b =
           (\<lparr> jsonrpc = ''2.0'', rpc_id = get_prop body ''id'', result = None,
              error = Some \<lparr> code = - 32001, message = ''Authentication required'',
                              data = JObj [(''auth_url'', JStr (to_string (BASE_URL r) @ ''/auth''))] \<rparr> \<rparr>,
            b)
         \<and> to_string (BASE_URL r) @ ''/auth'' \<noteq> []"
proof -
  have "\<not> truthy (isAuthenticated (userTokens r))"
    using assms(4) by (auto simp: isAuthenticated_def js_and_def)
  then show ?thesis
    using assms(1-3)
    by (simp add: mcp_remote_def mcp_try_remote_def createError_eq)
qed

theorem unauthenticated_tools_call_refused_witness:
  "mcp_remote example_remote (tools_call (JNum 5) ''list_events'' (JObj [])) [] =
     (\<lparr> jsonrpc = ''2.0'', rpc_id = JNum 5, result = None,
        error = Some \<lparr> code = - 32001, message = ''Authentication required'',
                        data = JObj [(''auth_url'', JStr ''http://localhost:3000/auth'')] \<rparr> \<rparr>,
      [])"
  using unauthenticated_tools_call_refused
          [of "tools_call (JNum 5) ''list_events'' (JObj [])" example_remote "[]"]
  by (simp add: example_remote_def)

section \<open>A limit of zero\<close>

lemma zero_limit_local:
  assumes z: "get_prop a ''limit'' = JNum 0"
      and nn: "\<not> nullish a'"
      and u: "get_prop a' ''limit'' = JUndefined"
      and same: "\<forall>k. k \<noteq> ''limit'' \<longrightarrow> get_prop a' k = get_prop a k"
  shows "listEvents e a events = listEvents e a' events"
    and "searchEvents e a events = searchEvents e a' events"
proof -
  have na: "\<not> nullish a"
    using z by (auto simp: nullish_def)
  have p: "get_prop a' ''start_date'' = get_prop a ''start_date''"
          "get_prop a' ''end_date'' = get_prop a ''end_date''"
          "get_prop a' ''query'' = get_prop a ''query''"
    using same by simp_all
  have j: "js_or (JNum 0) (JNum 10) = js_or JUndefined (JNum 10)"
    by (simp add: js_or_def)
  have nl: "nullish a' = False" "nullish a = False"
    using na nn by simp_all
  show "listEvents e a events = listEvents e a' events"
    unfolding listEvents_def p u z j nl if_False by (rule refl)
  show "searchEvents e a events = searchEvents e a' events"
    unfolding searchEvents_def p u z j nl if_False by (rule refl)
qed

lemma zero_limit_remote:
  assumes z: "get_prop a ''max_results'' = JNum 0"
      and nn: "\<not> nullish a'"
      and u: "get_prop a' ''max_results'' = JUndefined"
      and same: "\<forall>k. k \<noteq> ''max_results'' \<longrightarrow> get_prop a' k = get_prop a k"
  shows "listEvents_remote r a b = listEvents_remote r a' b"
    and "searchEvents_remote r a b = searchEvents_remote r a' b"
    and "listCalendars_remote r a b = listCalendars_remote r a' b"
proof -
  have na: "\<not> nullish a"
    using z by (auto simp: nullish_def)
  have p: "get_prop a' ''calendar_id'' = get_prop a ''calendar_id''"
          "get_prop a' ''single_events'' = get_prop a ''single_events''"
          "get_prop a' ''time_min'' = get_prop a ''time_min''"
          "get_prop a' ''time_max'' = get_prop a ''time_max''"
          "get_prop a' ''query'' = get_prop a ''query''"
    using same by simp_all
  have j: "js_or (JNum 0) (JNum 10) = js_or JUndefined (JNum 10)"
    by (simp add: js_or_def)
  have nl: "nullish a' = False" "nullish a = False"
    using na nn by simp_all
  show "listEvents_remote r a b = listEvents_remote r a' b"
    unfolding listEvents_remote_def p u z j nl if_False by (rule refl)
  show "searchEvents_remote r a b = searchEvents_remote r a' b"
    unfolding searchEvents_remote_def p u z j nl if_False by (rule refl)
  show "listCalendars_remote r a b = listCalendars_remote r a' b"
    unfolding listCalendars_remote_def p u z j nl if_False by (rule refl)
qed

text \<open>What the in-memory tools answer when \<open>limit\<close> is \<open>0\<close>: the cut is at 10.\<close>

lemma listEvents_zero_limit:
  assumes "get_prop a ''limit'' = JNum 0"
  shows "listEvents e a events =
           (Inr (ToolResult
                   (''Found '' @ nat_to_string (length (take 10 (filter (in_window e a) events)))
                    @ '' events'')
                   (EventsPayload (take 10 (filter (in_window e a) events)))),
            events)"
    and "returned (listEvents e a events) = take 10 (filter (in_window e a) events)"
proof -
  have na: "\<not> nullish a"
    using assms by (auto simp: nullish_def)
  show "listEvents e a events =
           (Inr (ToolResult
                   (''Found '' @ nat_to_string (length (take 10 (filter (in_window e a) events)))
                    @ '' events'')
                   (EventsPayload (take 10 (filter (in_window e a) events)))),
            events)"
    using assms by (simp add: listEvents_eq [OF na] js_or_def)
  then show "returned (listEvents e a events) = take 10 (filter (in_window e a) events)"
    by simp
qed

lemma searchEvents_zero_limit:
  assumes "get_prop a ''limit'' = JNum 0"
  shows "searchEvents e a events =
           (case get_prop a ''query'' of
              JStr q \<Rightarrow>
                (case filter_throwing (matches e (toLowerCase e q)) events of
                   Inl err \<Rightarrow> (Inl err, events)
                 | Inr matched \<Rightarrow>
                     (Inr (ToolResult
                             (''Found '' @ nat_to_string (length (take 10 matched))
                              @ '' events matching '' @ [CHR 0x22] @ q @ [CHR 0x22])
                             (EventsPayload (take 10 matched))),
                      events))
            | v \<Rightarrow> (Inl (not_a_function ''args.query'' v), events))"
proof -
  have na: "\<not> nullish a"
    using assms by (auto simp: nullish_def)
  show ?thesis
    using na assms
    by (simp add: searchEvents_def js_or_def Let_def split: json.splits sum.splits)
qed

text \<open>
  What the remote tools send when \<open>max_results\<close> is \<open>0\<close>: the request carries
  \<open>maxResults = 10\<close>.
\<close>

lemma remote_zero_max_results:
  assumes z: "get_prop m ''max_results'' = JNum 0"
      and auth: "truthy (isAuthenticated (userTokens r))"
  shows "listEvents_remote r m b =
           (let params = JObj [(''calendarId'', js_or (get_prop m ''calendar_id'') (JStr ''primary'')),
                               (''maxResults'', JNum 10),
                               (''singleEvents'', JBool (get_prop m ''single_events'' \<noteq> JBool False)),
                               (''orderBy'', JStr ''startTime'')];
                params = (if truthy (get_prop m ''time_min'')
                          then set_prop params ''timeMin'' (get_prop m ''time_min'') else params);
                params = (if truthy (get_prop m ''time_max'')
                          then set_prop params ''timeMax'' (get_prop m ''time_max'') else params)
            in (case calendar r b (EventsList params) of
                  (Inl err, b') \<Rightarrow>
                    (Inl (Error (''Failed to list events: '' @ error_message err)), b')
                | (Inr d, b') \<Rightarrow>
                    (items_result ''Failed to list events: '' '' events'' [] REvents d, b')))"
    and "searchEvents_remote r m b =
           (case calendar r b
                   (EventsList (JObj [(''calendarId'',
                                       js_or (get_prop m ''calendar_id'') (JStr ''primary'')),
                                      (''q'', get_prop m ''query''),
                                      (''maxResults'', JNum 10),
                                      (''singleEvents'', JBool True),
                                      (''orderBy'', JStr ''startTime'')])) of
              (Inl err, b') \<Rightarrow>
                (Inl (Error (''Failed to search events: '' @ error_message err)), b')
            | (Inr d, b') \<Rightarrow>
                (items_result ''Failed to search events: '' '' events matching ''
                   ([CHR 0x22] @ to_string (get_prop m ''query'') @ [CHR 0x22]) REvents d,
                 b'))"
    and "listCalendars_remote r m b =
           (case calendar r b (CalendarListList (JObj [(''maxResults'', JNum 10)])) of
              (Inl err, b') \<Rightarrow>
                (Inl (Error (''Failed to list calendars: '' @ error_message err)), b')
            | (Inr d, b') \<Rightarrow>
                (items_result ''Failed to list calendars: '' '' calendars'' [] RCalendars d, b'))"
proof -
  have nl: "nullish m = False"
    using z by (auto simp: nullish_def)
  have gc: "getCalendarClient (userTokens r) = Inr ()"
    using auth by (simp add: getCalendarClient_def)
  have j: "js_or (JNum 0) (JNum 10) = JNum 10"
    by (simp add: js_or_def)
  show "listEvents_remote r m b =
           (let params = JObj [(''calendarId'', js_or (get_prop m ''calendar_id'') (JStr ''primary'')),
                               (''maxResults'', JNum 10),
                               (''singleEvents'', JBool (get_prop m ''single_events'' \<noteq> JBool False)),
                               (''orderBy'', JStr ''startTime'')];
                params = (if truthy (get_prop m ''time_min'')
                          then set_prop params ''timeMin'' (get_prop m ''time_min'') else params);
                params = (if truthy (get_prop m ''time_max'')
                          then set_prop params ''timeMax'' (get_prop m ''time_max'') else params)
            in (case calendar r b (EventsList params) of
                  (Inl err, b') \<Rightarrow>
                    (Inl (Error (''Failed to list events: '' @ error_message err)), b')
                | (Inr d, b') \<Rightarrow>
                    (items_result ''Failed to list events: '' '' events'' [] REvents d, b')))"
    unfolding listEvents_remote_def gc sum.case nl if_False z j Let_def by (rule refl)
  show "searchEvents_remote r m b =
           (case calendar r b
                   (EventsList (JObj [(''calendarId'',
                                       js_or (get_prop m ''calendar_id'') (JStr ''primary'')),
                                      (''q'', get_prop m ''query''),
                                      (''maxResults'', JNum 10),
                                      (''singleEvents'', JBool True),
                                      (''orderBy'', JStr ''startTime'')])) of
              (Inl err, b') \<Rightarrow>
                (Inl (Error (''Failed to search events: '' @ error_message err)), b')
            | (Inr d, b') \<Rightarrow>
                (items_result ''Failed to search events: '' '' events matching ''
                   ([CHR 0x22] @ to_string (get_prop m ''query'') @ [CHR 0x22]) REvents d,
                 b'))"
    unfolding searchEvents_remote_def gc sum.case nl if_False z j Let_def by (rule refl)
  show "listCalendars_remote r m b =
           (case calendar r b (CalendarListList (JObj [(''maxResults'', JNum 10)])) of
              (Inl err, b') \<Rightarrow>
                (Inl (Error (''Failed to list calendars: '' @ error_message err)), b')
            | (Inr d, b') \<Rightarrow>
                (items_result ''Failed to list calendars: '' '' calendars'' [] RCalendars d, b'))"
    unfolding listCalendars_remote_def gc sum.case nl if_False z j by (rule refl)
qed

text \<open>
  C10. A \<open>limit\<close> of \<open>0\<close> is treated as if no limit had been given, and the default of
  10 is applied. \<open>list_events\<close> and \<open>search_events\<close> answer exactly as they do for the
  same arguments without \<open>limit\<close>; \<open>list_events\<close> returns the first 10 events that pass
  the date filters, and \<open>search_events\<close> the first 10 matches (or throws as it does on an
  event or query that is not a string), rather than none. In the remote server the same
  holds of \<open>max_results\<close> for \<open>list_events\<close>, \<open>search_events\<close> and
  \<open>list_calendars\<close>: each answers as without \<open>max_results\<close>, and (when authenticated)
  the request it sends to the provider carries \<open>maxResults = 10\<close>.
\<close>

theorem zero_limit_means_default:
  "(get_prop a ''limit'' = JNum 0 \<and> \<not> nullish a' \<and> get_prop a' ''limit'' = JUndefined
      \<and> (\<forall>k. k \<noteq> ''limit'' \<longrightarrow> get_prop a' k = get_prop a k) \<longrightarrow>
        listEvents e a events = listEvents e a' events
      \<and> searchEvents e a events = searchEvents e a' events
      \<and> returned (listEvents e a events) = take 10 (filter (in_window e a) events))
   \<and> (get_prop m ''max_results'' = JNum 0 \<and> \<not> nullish m' \<and> get_prop m' ''max_results'' = JUndefined
      \<and> (\<forall>k. k \<noteq> ''max_results'' \<longrightarrow> get_prop m' k = get_prop m k) \<longrightarrow>
        listEvents_remote r m b = listEvents_remote r m' b
      \<and> searchEvents_remote r m b = searchEvents_remote r m' b
      \<and> listCalendars_remote r m b = listCalendars_remote r m' b)
   \<and> (get_prop a ''limit'' = JNum 0 \<longrightarrow>
        listEvents e a events =
          (Inr (ToolResult
                  (''Found '' @ nat_to_string (length (take 10 (filter (in_window e a) events)))
                   @ '' events'')
                  (EventsPayload (take 10 (filter (in_window e a) events)))),
           events)
      \<and> searchEvents e a events =
          (case get_prop a ''query'' of
             JStr q \<Rightarrow>
               (case filter_throwing (matches e (toLowerCase e q)) events of
                  Inl err \<Rightarrow> (Inl err, events)
                | Inr matched \<Rightarrow>
                    (Inr (ToolResult
                            (''Found '' @ nat_to_string (length (take 10 matched))
                             @ '' events matching '' @ [CHR 0x22] @ q @ [CHR 0x22])
                            (EventsPayload (take 10 matched))),
                     events))
           | v \<Rightarrow> (Inl (not_a_function ''args.query'' v), events)))
   \<and> (get_prop m ''max_results'' = JNum 0 \<and> truthy (isAuthenticated (userTokens r)) \<longrightarrow>
        listEvents_remote r m b =
          (let params = JObj [(''calendarId'', js_or (get_prop m ''calendar_id'') (JStr ''primary'')),
                              (''maxResults'', JNum 10),
                              (''singleEvents'', JBool (get_prop m ''single_events'' \<noteq> JBool False)),
                              (''orderBy'', JStr ''startTime'')];
               params = (if truthy (get_prop m ''time_min'')
                         then set_prop params ''timeMin'' (get_prop m ''time_min'') else params);
               params = (if truthy (get_prop m ''time_max'')
                         then set_prop params ''timeMax'' (get_prop m ''time_max'') else params)
           in (case calendar r b (EventsList params) of
                 (Inl err, b') \<Rightarrow>
                   (Inl (Error (''Failed to list events: '' @ error_message err)), b')
               | (Inr d, b') \<Rightarrow>
                   (items_result ''Failed to list events: '' '' events'' [] REvents d, b')))
      \<and> searchEvents_remote r m b =
          (case calendar r b
                  (EventsList (JObj [(''calendarId'',
                                      js_or (get_prop m ''calendar_id'') (JStr ''primary'')),
                                     (''q'', get_prop m ''query''),
                                     (''maxResults'', JNum 10),
                                     (''singleEvents'', JBool True),
                                     (''orderBy'', JStr ''startTime'')])) of
             (Inl err, b') \<Rightarrow>
               (Inl (Error (''Failed to search events: '' @ error_message err)), b')
           | (Inr d, b') \<Rightarrow>
               (items_result ''Failed to search events: '' '' events matching ''
                  ([CHR 0x22] @ to_string (get_prop m ''query'') @ [CHR 0x22]) REvents d,
                b'))
      \<and> listCalendars_remote r m b =
          (case calendar r b (CalendarListList (JObj [(''maxResults'', JNum 10)])) of
             (Inl err, b') \<Rightarrow>
               (Inl (Error (''Failed to list calendars: '' @ error_message err)), b')
           | (Inr d, b') \<Rightarrow>
               (items_result ''Failed to list calendars: '' '' calendars'' [] RCalendars d, b')))"
  (is "(?same_local) \<and> (?same_remote) \<and> (?pinned_local) \<and> (?pinned_remote)")
proof (intro conjI)
  show ?same_local
    using zero_limit_local [of a a' e events] listEvents_zero_limit(2) [of a e events]
    by blast
  show ?same_remote
    using zero_limit_remote [of m m' r b] by blast
  show ?pinned_local
    using listEvents_zero_limit(1) [of a e events] searchEvents_zero_limit [of a e events]
    by (intro impI conjI)
  show ?pinned_remote
    using remote_zero_max_results [of m r b]
    by (intro impI conjI; (elim conjE)?)
qed

theorem zero_limit_means_default_witness:
  "listEvents example_env (JObj [(''query'', JStr ''meeting''), (''limit'', JNum 0)])
       [standup, team_meeting] =
     (Inr (ToolResult ''Found 2 events'' (EventsPayload [standup, team_meeting])),
      [standup, team_meeting])
   \<and> listEvents example_env (JObj [(''query'', JStr ''meeting'')]) [standup, team_meeting] =
     (Inr (ToolResult ''Found 2 events'' (EventsPayload [standup, team_meeting])),
      [standup, team_meeting])
   \<and> searchEvents example_env (JObj [(''query'', JStr ''meeting''), (''limit'', JNum 0)])
       [standup, team_meeting] =
     (Inr (ToolResult (''Found 1 events matching '' @ [CHR 0x22] @ ''meeting'' @ [CHR 0x22])
                      (EventsPayload [team_meeting])),
      [standup, team_meeting])
   \<and> listEvents_remote example_remote_authed
         (JObj [(''query'', JStr ''meeting''), (''max_results'', JNum 0)]) [] =
     (Inr (RemoteResult ''Found 0 events'' (REvents (JArr []))),
      [EventsList (JObj [(''calendarId'', JStr ''primary''), (''maxResults'', JNum 10),
                         (''singleEvents'', JBool True), (''orderBy'', JStr ''startTime'')])])
   \<and> searchEvents_remote example_remote_authed
         (JObj [(''query'', JStr ''meeting''), (''max_results'', JNum 0)]) [] =
     (Inr (RemoteResult (''Found 0 events matching '' @ [CHR 0x22] @ ''meeting'' @ [CHR 0x22])
                        (REvents (JArr []))),
      [EventsList (JObj [(''calendarId'', JStr ''primary''), (''q'', JStr ''meeting''),
                         (''maxResults'', JNum 10), (''singleEvents'', JBool True),
                         (''orderBy'', JStr ''startTime'')])])
   \<and> listCalendars_remote example_remote_authed
         (JObj [(''query'', JStr ''meeting''), (''max_results'', JNum 0)]) [] =
     (Inr (RemoteResult ''Found 0 calendars'' (RCalendars (JArr []))),
      [CalendarListList (JObj [(''maxResults'', JNum 10)])])"
  using zero_limit_means_default
          [where a = "JObj [(''query'', JStr ''meeting''), (''limit'', JNum 0)]"
             and a' = "JObj [(''query'', JStr ''meeting'')]" and e = example_env
             and events = "[standup, team_meeting]"
             and m = "JObj [(''query'', JStr ''meeting''), (''max_results'', JNum 0)]"
             and m' = "JObj [(''query'', JStr ''meeting'')]"
             and r = example_remote_authed and b = "[]"]
  by (simp add: listEvents_def searchEvents_def listEvents_remote_def searchEvents_remote_def
        listCalendars_remote_def matches_def items_result_def getCalendarClient_def
        isAuthenticated_def js_and_def js_or_def nullish_def int_to_string_def
        ascii_lower_def ascii_lower_char_def standup_def team_meeting_def
        example_env_def example_remote_authed_def in_window_def Let_def)

end
